(* ===== verification/Prelude.thy ===== *)
theory Prelude
  imports Complex_Main "HOL-Library.List_Lexorder" "HOL-Library.Char_ord"
begin

text \<open>
  The Python semantics the adapter \<^verbatim>\<open>src/custom_components/marantzusb/media_player.py\<close>
  relies on, shared by every component theory:
  \<^item> \<open>exn\<close>, the exceptions the adapter can raise or let through, and \<open>pyval\<close>, the
    dynamically typed values exchanged with the vendor library;
  \<^item> \<open>('s, 'a) py\<close>, a method body as a state transformer whose result is an exception
    or a value; the state reached when an exception is raised is kept, as Python keeps
    the attribute assignments made before a \<^verbatim>\<open>raise\<close>;
  \<^item> Python dictionaries as association lists with distinct keys (\<open>dict_set\<close>,
    \<open>dict_get\<close>, \<open>dict_of_pairs\<close> for a dict comprehension);
  \<^item> the builtins \<^verbatim>\<open>round\<close> (ties to even) and \<^verbatim>\<open>str\<close> on integers, with the
    parser \<open>parse_int\<close> used to state round trips.
  Floats are modelled as \<open>real\<close>: the rounding of IEEE arithmetic is not modelled.
\<close>

named_theorems py_defs "unfolding rules of the Python effect monad"

named_theorems dict_simps "rules for Python dictionaries"

section \<open>Exceptions and dynamically typed values\<close>

datatype exn =
    TypeError
  | ZeroDivisionError
  | AttributeError
  | NotImplementedError
  | VendorError string

datatype pyval = PyNone | PyStr string | PyInt int

section \<open>Method bodies: state passing with exceptions\<close>

type_synonym ('s, 'a) py = "'s \<Rightarrow> (exn + 'a) \<times> 's"

definition py_return :: "'a \<Rightarrow> ('s, 'a) py" where
  [py_defs]: "py_return a = (\<lambda>s. (Inr a, s))"

definition py_raise :: "exn \<Rightarrow> ('s, 'a) py" where
  [py_defs]: "py_raise e = (\<lambda>s. (Inl e, s))"

definition py_bind :: "('s, 'a) py \<Rightarrow> ('a \<Rightarrow> ('s, 'b) py) \<Rightarrow> ('s, 'b) py" where
  [py_defs]: "py_bind m f = (\<lambda>s. case m s of (Inl e, s') \<Rightarrow> (Inl e, s') | (Inr a, s') \<Rightarrow> f a s')"

text \<open>An expression over \<^verbatim>\<open>self\<close> that evaluates to a value or raises.\<close>

definition py_eval :: "('s \<Rightarrow> exn + 'a) \<Rightarrow> ('s, 'a) py" where
  [py_defs]: "py_eval f = (\<lambda>s. (f s, s))"

text \<open>An attribute assignment \<^verbatim>\<open>self.x = e\<close>.\<close>

definition py_modify :: "('s \<Rightarrow> 's) \<Rightarrow> ('s, unit) py" where
  [py_defs]: "py_modify f = (\<lambda>s. (Inr (), f s))"

section \<open>Dictionaries\<close>

text \<open>
  A Python \<^verbatim>\<open>dict\<close> keeps its keys in insertion order; assigning an existing key
  replaces the value in place, a new key is appended.
\<close>

type_synonym ('k, 'v) pydict = "('k \<times> 'v) list"

definition dict_keys :: "('k, 'v) pydict \<Rightarrow> 'k list" where
  [dict_simps]: "dict_keys d = map fst d"

definition dict_values :: "('k, 'v) pydict \<Rightarrow> 'v list" where
  [dict_simps]: "dict_values d = map snd d"

definition dict_get :: "('k, 'v) pydict \<Rightarrow> 'k \<Rightarrow> 'v option" where
  [dict_simps]: "dict_get d k = map_of d k"

definition dict_set :: "('k, 'v) pydict \<Rightarrow> 'k \<Rightarrow> 'v \<Rightarrow> ('k, 'v) pydict" where
  "dict_set d k v =
     (if k \<in> set (map fst d) then map (\<lambda>(k', v'). if k' = k then (k', v) else (k', v')) d
      else d @ [(k, v)])"

text \<open>\<^verbatim>\<open>{f(x): g(x) for x in xs}\<close>: the pairs are assigned one after the other.\<close>

definition dict_of_pairs :: "('k \<times> 'v) list \<Rightarrow> ('k, 'v) pydict" where
  "dict_of_pairs ps = foldl (\<lambda>d (k, v). dict_set d k v) [] ps"

definition dict_wf :: "('k, 'v) pydict \<Rightarrow> bool" where
  "dict_wf d \<longleftrightarrow> distinct (map fst d)"

text \<open>\<^verbatim>\<open>d.get(key)\<close> with a key of any Python type: a dict with \<^verbatim>\<open>str\<close> keys holds
  no \<^verbatim>\<open>None\<close> and no \<^verbatim>\<open>int\<close>.\<close>

fun dict_get_pyval :: "(string, 'v) pydict \<Rightarrow> pyval \<Rightarrow> 'v option" where
  "dict_get_pyval d (PyStr k) = dict_get d k"
| "dict_get_pyval d PyNone = None"
| "dict_get_pyval d (PyInt i) = None"

section \<open>Builtins on numbers\<close>

text \<open>\<^verbatim>\<open>round(x)\<close> on a float: the nearest integer, ties to the even one.\<close>

definition py_round :: "real \<Rightarrow> int" where
  "py_round x =
     (let n = \<lfloor>x\<rfloor>; d = x - of_int n in
      if d < 1/2 then n else if 1/2 < d then n + 1 else if even n then n else n + 1)"

section \<open>Printing and parsing integers\<close>

definition digit_char :: "nat \<Rightarrow> char" where
  "digit_char n = char_of (48 + n)"

text \<open>\<^verbatim>\<open>str(n)\<close> for \<^verbatim>\<open>n >= 0\<close>: decimal digits, most significant first.\<close>

fun digits_of_nat :: "nat \<Rightarrow> string" where
  "digits_of_nat n = (if n < 10 then [digit_char n] else digits_of_nat (n div 10) @ [digit_char (n mod 10)])"

declare digits_of_nat.simps [simp del]

text \<open>\<^verbatim>\<open>str(i)\<close> for a Python \<^verbatim>\<open>int\<close>.\<close>

definition str_of_int :: "int \<Rightarrow> string" where
  "str_of_int i = (if i < 0 then CHR ''-'' # digits_of_nat (nat (- i)) else digits_of_nat (nat i))"

definition is_digit_char :: "char \<Rightarrow> bool" where
  "is_digit_char c \<longleftrightarrow> (48::nat) \<le> of_char c \<and> of_char c < (58::nat)"

definition digit_value :: "char \<Rightarrow> nat" where
  "digit_value c = of_char c - 48"

definition nat_of_digits :: "string \<Rightarrow> nat" where
  "nat_of_digits cs = foldl (\<lambda>n c. 10 * n + digit_value c) 0 cs"

text \<open>The decimal integers \<^verbatim>\<open>str\<close> prints: an optional minus sign and at least one digit.\<close>

definition parse_int :: "string \<Rightarrow> int option" where
  "parse_int s =
     (case s of
        [] \<Rightarrow> None
      | c # cs \<Rightarrow>
          if c = CHR ''-'' then
            (if cs \<noteq> [] \<and> list_all is_digit_char cs then Some (- int (nat_of_digits cs)) else None)
          else if list_all is_digit_char s then Some (int (nat_of_digits s)) else None)"

section \<open>Lemmas\<close>

lemma py_bind_return [simp]: "py_bind (py_return a) f = f a"
  by (simp add: py_defs)

lemma py_bind_raise [simp]: "py_bind (py_raise e) f = py_raise e"
  by (simp add: py_defs)

lemma py_bind_assoc [simp]: "py_bind (py_bind m f) g = py_bind m (\<lambda>a. py_bind (f a) g)"
  by (rule ext) (simp add: py_defs split: prod.splits sum.splits)

lemma py_bind_apply [simp]:
  "py_bind m f s = (case m s of (Inl e, s') \<Rightarrow> (Inl e, s') | (Inr a, s') \<Rightarrow> f a s')"
  by (simp add: py_bind_def)

lemma py_modify_apply [simp]: "py_modify f s = (Inr (), f s)"
  by (simp add: py_modify_def)

lemma py_return_apply [simp]: "py_return a s = (Inr a, s)"
  by (simp add: py_return_def)

lemma py_eval_apply [simp]: "py_eval f s = (f s, s)"
  by (simp add: py_eval_def)

lemma map_fst_dict_set: "map fst (dict_set d k v) =
    (if k \<in> set (map fst d) then map fst d else map fst d @ [k])"
  by (induction d) (auto simp: dict_set_def split: prod.splits)

lemma dict_set_wf [dict_simps]: "dict_wf d \<Longrightarrow> dict_wf (dict_set d k v)"
  by (simp add: dict_wf_def map_fst_dict_set)

lemma map_of_replace:
  "map_of (map (\<lambda>(k', v'). if k' = k then (k', v) else (k', v')) d) x =
   (if x = k \<and> k \<in> set (map fst d) then Some v else map_of d x)"
proof (induction d arbitrary: x)
  case Nil
  then show ?case by simp
next
  case (Cons p d)
  obtain a b where p: "p = (a, b)" by (cases p)
  with Cons show ?case by auto
qed

lemma map_of_dict_set [dict_simps]: "map_of (dict_set d k v) = (map_of d)(k \<mapsto> v)"
proof (cases "k \<in> set (map fst d)")
  case True
  then show ?thesis by (auto simp: dict_set_def fun_eq_iff map_of_replace)
next
  case False
  then have "map_of d k = None" by (simp add: map_of_eq_None_iff)
  with False show ?thesis
    by (auto simp: dict_set_def fun_eq_iff map_add_def split: option.splits)
qed

lemma dict_of_pairs_foldl:
  "map_of (foldl (\<lambda>d (k, v). dict_set d k v) d0 ps) = map_of d0 ++ map_of (rev ps)"
  by (induction ps arbitrary: d0) (auto simp: map_of_dict_set map_add_def fun_eq_iff
      split: option.splits)

text \<open>Insert/lookup: the comprehension maps each key to the last value paired with it.\<close>

lemma map_of_dict_of_pairs [dict_simps]: "map_of (dict_of_pairs ps) = map_of (rev ps)"
  by (simp add: dict_of_pairs_def dict_of_pairs_foldl)

lemma set_keys_dict_of_pairs [dict_simps]:
  "set (map fst (dict_of_pairs ps)) = set (map fst ps)"
proof -
  have "dom (map_of (dict_of_pairs ps)) = dom (map_of (rev ps))"
    by (simp add: map_of_dict_of_pairs)
  then show ?thesis by (simp add: dom_map_of_conv_image_fst)
qed

lemma dict_of_pairs_wf [dict_simps]: "dict_wf (dict_of_pairs ps)"
proof -
  have "dict_wf (foldl (\<lambda>d (k, v). dict_set d k v) d0 ps)" if "dict_wf d0" for d0
    using that by (induction ps arbitrary: d0) (auto simp: dict_set_wf)
  then show ?thesis by (simp add: dict_of_pairs_def dict_wf_def)
qed

lemma py_round_of_int [simp]: "py_round (of_int i) = i"
  by (simp add: py_round_def)

lemma py_round_0 [simp]: "py_round 0 = 0"
  using py_round_of_int [of 0] by simp

lemma py_round_numeral [simp]: "py_round (numeral n) = numeral n"
  using py_round_of_int [of "numeral n"] by simp

lemma py_round_error: "\<bar>x - of_int (py_round x)\<bar> \<le> 1/2"
  unfolding py_round_def Let_def
  using of_int_floor_le [of x] real_of_int_floor_gt_diff_one [of x]
  by (auto split: if_splits)

lemma py_round_mono: "x \<le> y \<Longrightarrow> py_round x \<le> py_round y"
proof -
  assume xy: "x \<le> y"
  have ex: "\<bar>x - of_int (py_round x)\<bar> \<le> 1/2" and ey: "\<bar>y - of_int (py_round y)\<bar> \<le> 1/2"
    by (rule py_round_error)+
  show ?thesis
  proof (rule ccontr)
    assume "\<not> py_round x \<le> py_round y"
    then have lt: "py_round y + 1 \<le> py_round x" by simp
    then have "of_int (py_round y) + 1 \<le> (of_int (py_round x) :: real)"
      by (metis of_int_1 of_int_add of_int_le_iff)
    with ex ey xy have "x = y" by linarith
    with lt show False by simp
  qed
qed

lemma of_char_digit_char: "n < 10 \<Longrightarrow> of_char (digit_char n) = (48 + n :: nat)"
  by (simp add: digit_char_def)

lemma digit_char_values [simp]:
  "digit_char 0 = CHR ''0''" "digit_char 1 = CHR ''1''" "digit_char 2 = CHR ''2''"
  "digit_char 3 = CHR ''3''" "digit_char 4 = CHR ''4''" "digit_char 5 = CHR ''5''"
  "digit_char 6 = CHR ''6''" "digit_char 7 = CHR ''7''" "digit_char 8 = CHR ''8''"
  "digit_char 9 = CHR ''9''"
  by code_simp+

lemma digit_char_props [simp]:
  "n < 10 \<Longrightarrow> is_digit_char (digit_char n)"
  "n < 10 \<Longrightarrow> digit_value (digit_char n) = n"
  by (simp_all add: of_char_digit_char is_digit_char_def digit_value_def)

lemma digit_char_not_minus [simp]: "n < 10 \<Longrightarrow> digit_char n \<noteq> CHR ''-''"
proof
  assume "n < 10" "digit_char n = CHR ''-''"
  then have "of_char (digit_char n) = (of_char CHR ''-'' :: nat)" by simp
  with \<open>n < 10\<close> show False by (simp add: of_char_digit_char)
qed

lemma digits_of_nat_props:
  "digits_of_nat n \<noteq> [] \<and> list_all is_digit_char (digits_of_nat n) \<and>
   nat_of_digits (digits_of_nat n) = n"
proof (induction n rule: digits_of_nat.induct)
  case (1 n)
  show ?case
  proof (cases "n < 10")
    case True
    then show ?thesis
      by (simp add: digits_of_nat.simps [of n] nat_of_digits_def)
  next
    case False
    with "1.IH" have IH: "list_all is_digit_char (digits_of_nat (n div 10))"
      "nat_of_digits (digits_of_nat (n div 10)) = n div 10" by simp_all
    have "10 * (n div 10) + n mod 10 = n" by simp
    with False IH show ?thesis
      by (simp add: digits_of_nat.simps [of n] nat_of_digits_def)
  qed
qed

lemma digits_of_nat_hd: "hd (digits_of_nat n) \<noteq> CHR ''-''"
proof -
  have "is_digit_char (hd (digits_of_nat n))"
    using digits_of_nat_props [of n] by (cases "digits_of_nat n") auto
  then show ?thesis by (auto simp: is_digit_char_def)
qed

text \<open>Round trip: \<open>parse_int\<close> reads back what \<^verbatim>\<open>str\<close> prints.\<close>

lemma parse_str_of_int [simp]: "parse_int (str_of_int i) = Some i"
proof (cases "i < 0")
  case True
  then show ?thesis
    using digits_of_nat_props [of "nat (- i)"] by (simp add: str_of_int_def parse_int_def)
next
  case False
  obtain c cs where dc: "digits_of_nat (nat i) = c # cs"
    using digits_of_nat_props [of "nat i"] by (cases "digits_of_nat (nat i)") auto
  have "c \<noteq> CHR ''-''" using digits_of_nat_hd [of "nat i"] dc by simp
  with False dc show ?thesis
    using digits_of_nat_props [of "nat i"] by (simp add: str_of_int_def parse_int_def)
qed

lemma length_digits_of_nat:
  "length (digits_of_nat n) = (if n < 10 then 1 else Suc (length (digits_of_nat (n div 10))))"
  by (simp add: digits_of_nat.simps [of n])

end
