(* ===== verification/Volume.thy ===== *)
theory Volume
  imports Prelude
begin

definition calc_volume :: "int \<Rightarrow> int \<Rightarrow> pyval \<Rightarrow> exn + real" where
  "calc_volume min_volume max_volume decibel =
     (case decibel of
        PyInt d \<Rightarrow>
          if min_volume = max_volume then Inl ZeroDivisionError
          else Inr (of_int \<bar>min_volume - d\<bar> / of_int \<bar>min_volume - max_volume\<bar>)
      | _ \<Rightarrow> Inl TypeError)"

definition calc_db :: "int \<Rightarrow> int \<Rightarrow> real \<Rightarrow> int" where
  "calc_db min_volume max_volume volume =
     min_volume + py_round (of_int \<bar>min_volume - max_volume\<bar> * volume)"

lemma calc_volume_PyInt:
  "mn \<noteq> mx \<Longrightarrow> calc_volume mn mx (PyInt d) = Inr (of_int \<bar>mn - d\<bar> / of_int \<bar>mn - mx\<bar>)"
  by (simp add: calc_volume_def)

text \<open>\<open>calc_db\<close> applied to the fraction \<open>calc_volume\<close> computes: the distance to
  \<open>min_volume\<close> comes back, whichever side of \<open>min_volume\<close> the decibel value was on.\<close>

lemma calc_db_fraction:
  assumes "mn \<noteq> mx"
  shows "calc_db mn mx (of_int \<bar>mn - d\<bar> / of_int \<bar>mn - mx\<bar>) = mn + \<bar>mn - d\<bar>"
proof -
  have "(of_int \<bar>mn - mx\<bar> :: real) * (of_int \<bar>mn - d\<bar> / of_int \<bar>mn - mx\<bar>) = of_int \<bar>mn - d\<bar>"
    using assms by simp
  then have "calc_db mn mx (of_int \<bar>mn - d\<bar> / of_int \<bar>mn - mx\<bar>) = mn + py_round (of_int \<bar>mn - d\<bar>)"
    by (simp only: calc_db_def)
  then show ?thesis by (simp only: py_round_of_int)
qed

lemma py_round_range_nonneg:
  assumes "mn \<noteq> mx" and "0 \<le> f"
  shows "0 \<le> py_round (of_int \<bar>mn - mx\<bar> * f)"
proof -
  have "py_round 0 \<le> py_round (of_int \<bar>mn - mx\<bar> * f)"
    using assms by (intro py_round_mono) simp
  then show ?thesis by (simp only: py_round_0)
qed

lemma fraction_bounds:
  assumes "mn < mx" and "mn \<le> d" and "d \<le> mx"
  shows "(0::real) \<le> of_int \<bar>mn - d\<bar> / of_int \<bar>mn - mx\<bar> \<and> of_int \<bar>mn - d\<bar> / of_int \<bar>mn - mx\<bar> \<le> (1::real)"
proof
  show "0 \<le> of_int \<bar>mn - d\<bar> / (of_int \<bar>mn - mx\<bar> :: real)"
    by (intro divide_nonneg_nonneg) simp_all
  have "\<bar>mn - d\<bar> \<le> \<bar>mn - mx\<bar>" using assms by simp
  then have le: "of_int \<bar>mn - d\<bar> \<le> (of_int \<bar>mn - mx\<bar> :: real)" by (simp only: of_int_le_iff)
  have pos: "(0::real) < of_int \<bar>mn - mx\<bar>" using assms by simp
  show "of_int \<bar>mn - d\<bar> / of_int \<bar>mn - mx\<bar> \<le> (1::real)"
    using divide_le_eq_1_pos [OF pos] le by blast
qed

text \<open>C7. Decibel to fraction and back is the identity for every decibel value at or
  above \<open>min_volume\<close> when the range is not empty.\<close>

theorem calc_db_calc_volume:
  assumes "mn \<noteq> mx" and "mn \<le> d"
  shows "\<exists>f. calc_volume mn mx (PyInt d) = Inr f \<and> calc_db mn mx f = d"
  using assms calc_db_fraction [OF assms(1), of d] by (simp add: calc_volume_PyInt)

theorem calc_db_calc_volume_witness:
  "\<exists>f. calc_volume (-71) (-1) (PyInt (-36)) = Inr f \<and> calc_db (-71) (-1) f = -36"
  by (rule calc_db_calc_volume) simp_all

text \<open>C8. Fraction to decibel and back stays within half a decibel step of the
  fraction, \<open>1 / (2 |min - max|)\<close>, for every fraction \<open>f \<ge> 0\<close>.\<close>

theorem calc_volume_calc_db:
  assumes "mn \<noteq> mx" and "0 \<le> f"
  shows "\<exists>g. calc_volume mn mx (PyInt (calc_db mn mx f)) = Inr g \<and>
             \<bar>g - f\<bar> \<le> 1 / (2 * of_int \<bar>mn - mx\<bar>)"
proof -
  let ?D = "of_int \<bar>mn - mx\<bar> :: real"
  let ?r = "py_round (?D * f)"
  have D: "0 < ?D" using assms(1) by simp
  have r: "0 \<le> ?r" using py_round_range_nonneg [OF assms] .
  have err: "\<bar>?D * f - of_int ?r\<bar> \<le> 1/2" by (rule py_round_error)
  have "of_int ?r / ?D - f = (of_int ?r - ?D * f) / ?D" using D by (simp add: field_simps)
  then have "\<bar>of_int ?r / ?D - f\<bar> = \<bar>?D * f - of_int ?r\<bar> / ?D"
    using D by (simp add: abs_minus_commute)
  also have "\<dots> \<le> (1/2) / ?D" using divide_right_mono [OF err, of ?D] D by linarith
  also have "\<dots> = 1 / (2 * ?D)" by simp
  finally have "\<bar>of_int ?r / ?D - f\<bar> \<le> 1 / (2 * ?D)" .
  moreover have "calc_volume mn mx (PyInt (calc_db mn mx f)) = Inr (of_int ?r / ?D)"
    using assms(1) r by (simp add: calc_volume_PyInt calc_db_def)
  ultimately show ?thesis by blast
qed

theorem calc_volume_calc_db_witness:
  "\<exists>g. calc_volume (-71) (-1) (PyInt (calc_db (-71) (-1) (1/3))) = Inr g \<and>
       \<bar>g - 1/3\<bar> \<le> 1 / (2 * of_int \<bar>(-71) - (-1::int)\<bar>)"
  by (rule calc_volume_calc_db) simp_all

text \<open>C9. For a range with \<open>min_volume < max_volume\<close>, every fraction in \<open>[0, 1]\<close>
  converts to a decibel value inside \<open>[min_volume, max_volume]\<close>.\<close>

theorem calc_db_bounds:
  assumes "mn < mx" and "0 \<le> f" and "f \<le> 1"
  shows "mn \<le> calc_db mn mx f \<and> calc_db mn mx f \<le> mx"
proof -
  let ?D = "of_int \<bar>mn - mx\<bar> :: real"
  have D: "0 < ?D" using assms(1) by simp
  have "0 \<le> py_round (?D * f)" using assms(1,2) by (intro py_round_range_nonneg) simp_all
  moreover have "py_round (?D * f) \<le> py_round (?D * 1)"
    using D assms(3) by (intro py_round_mono mult_left_mono) simp_all
  moreover have "py_round (?D * 1) = mx - mn"
    using assms(1) by (metis mult.right_neutral abs_of_neg diff_less_0_iff_less minus_diff_eq py_round_of_int)
  ultimately show ?thesis using assms(1) by (simp add: calc_db_def)
qed

theorem calc_db_bounds_witness:
  "(-71) \<le> calc_db (-71) (-1) (2/5) \<and> calc_db (-71) (-1) (2/5) \<le> -1"
  by (rule calc_db_bounds) simp_all

text \<open>C28. For a range with \<open>min_volume < max_volume\<close>, every decibel value inside it
  converts to a fraction in \<open>[0, 1]\<close>.\<close>

theorem calc_volume_bounds:
  assumes "mn < mx" and "mn \<le> d" and "d \<le> mx"
  shows "\<exists>f. calc_volume mn mx (PyInt d) = Inr f \<and> 0 \<le> f \<and> f \<le> 1"
  using assms fraction_bounds [OF assms] by (simp add: calc_volume_PyInt)

theorem calc_volume_bounds_witness:
  "\<exists>f. calc_volume (-71) (-1) (PyInt (-1)) = Inr f \<and> 0 \<le> f \<and> f \<le> 1"
  by (rule calc_volume_bounds) simp_all

text \<open>C27. No clamping: a decibel value below \<open>min_volume\<close> is reflected, so the
  round trip through the fraction gives \<open>2 min - d\<close> instead of \<open>d\<close>.\<close>

theorem calc_db_calc_volume_below:
  assumes "mn \<noteq> mx" and "d < mn"
  shows "\<exists>f. calc_volume mn mx (PyInt d) = Inr f \<and> calc_db mn mx f = 2 * mn - d"
  using assms calc_db_fraction [OF assms(1), of d] by (simp add: calc_volume_PyInt)

theorem calc_db_calc_volume_below_witness:
  "\<exists>f. calc_volume (-71) (-1) (PyInt (-80)) = Inr f \<and> calc_db (-71) (-1) f = -62"
  using calc_db_calc_volume_below [of "-71" "-1" "-80"] by simp

text \<open>C26. With \<open>max_volume < min_volume\<close>, which the schema accepts, the full
  fraction 1 converts to \<open>2 min - max\<close>, above \<open>min_volume\<close> and not \<open>max_volume\<close>.\<close>

theorem calc_db_swapped:
  assumes "mx < mn"
  shows "calc_db mn mx 1 = 2 * mn - mx \<and> mn < calc_db mn mx 1"
proof -
  have "py_round (of_int \<bar>mn - mx\<bar> * 1) = mn - mx"
    using assms by (metis mult.right_neutral abs_of_pos diff_gt_0_iff_gt py_round_of_int)
  then show ?thesis using assms by (simp add: calc_db_def)
qed

theorem calc_db_swapped_witness: "calc_db (-1) (-71) 1 = 69 \<and> -1 < calc_db (-1) (-71) 1"
  using calc_db_swapped [of "-71" "-1"] by simp

end
