(* ===== verification/Receiver.thy ===== *)
theory Receiver
  imports Prelude
begin

text \<open>
  The interface to the vendor library \<^verbatim>\<open>marantz_receiver\<close>, which is not part of the
  repository: the five methods \<^verbatim>\<open>main_power\<close>, \<^verbatim>\<open>main_volume\<close>, \<^verbatim>\<open>main_mute\<close>,
  \<^verbatim>\<open>main_source\<close> and \<^verbatim>\<open>main_sound_mode\<close>, each called with an operator string and a
  value. The library is a parameter of the model: any function from a call and the
  library object's state to a result (a reply or an exception) and the next state.
\<close>

datatype command = MainPower | MainVolume | MainMute | MainSource | MainSoundMode

text \<open>\<^verbatim>\<open>receiver.main_<command>(operator, value)\<close>.\<close>

datatype call = Call command string pyval

type_synonym 'r vendor = "call \<Rightarrow> 'r \<Rightarrow> (exn + pyval) \<times> 'r"

text \<open>Every call of the adapter passes the operator \<^verbatim>\<open>':'\<close>; a query passes \<^verbatim>\<open>'?'\<close>.\<close>

definition query :: "command \<Rightarrow> call" where
  "query c = Call c '':'' (PyStr ''?'')"

definition write_code :: "command \<Rightarrow> string \<Rightarrow> call" where
  "write_code c code = Call c '':'' (PyStr code)"

subsection \<open>Test doubles\<close>

text \<open>
  A receiver that answers every query from a fixed table and every write with
  \<^verbatim>\<open>None\<close>, and keeps the list of calls it received (the receiver state is that log).
\<close>

definition table_vendor :: "(command \<Rightarrow> exn + pyval) \<Rightarrow> call list vendor" where
  "table_vendor t c calls =
     (case c of Call cmd op x \<Rightarrow> (if x = PyStr ''?'' then t cmd else Inr PyNone, calls @ [c]))"

text \<open>Any library, with the calls it receives recorded beside its own state.\<close>

definition logged :: "'r vendor \<Rightarrow> ('r \<times> call list) vendor" where
  "logged v c rl = (case v c (fst rl) of (res, r') \<Rightarrow> (res, (r', snd rl @ [c])))"

text \<open>A receiver that stores the last code written to each command and reports it on a
  query: a model of a device whose query replies use the codes the adapter writes.\<close>

definition register_vendor :: "(command \<Rightarrow> pyval) vendor" where
  "register_vendor c regs =
     (case c of Call cmd op x \<Rightarrow> if x = PyStr ''?'' then (Inr (regs cmd), regs) else (Inr PyNone, regs(cmd := x)))"

text \<open>A table of replies: power off, muted, -36 dB, source code 11, sound mode code 3.\<close>

definition demo_replies :: "command \<Rightarrow> exn + pyval" where
  "demo_replies c =
     (case c of MainPower \<Rightarrow> Inr (PyStr ''1'') | MainMute \<Rightarrow> Inr (PyStr ''2'')
      | MainVolume \<Rightarrow> Inr (PyInt (-36)) | MainSource \<Rightarrow> Inr (PyStr ''11'')
      | MainSoundMode \<Rightarrow> Inr (PyStr ''3''))"

lemma table_vendor_query [simp]: "table_vendor t (query c) calls = (t c, calls @ [query c])"
  by (simp add: table_vendor_def query_def)

lemma register_vendor_query [simp]: "register_vendor (query c) regs = (Inr (regs c), regs)"
  by (simp add: register_vendor_def query_def)

lemma register_vendor_write [simp]:
  "register_vendor (write_code c code) regs =
     (if code = ''?'' then (Inr (regs c), regs) else (Inr PyNone, regs(c := PyStr code)))"
  by (simp add: register_vendor_def write_code_def)

end
