(* ===== verification/Marantz.thy ===== *)
theory Marantz
  imports Volume Receiver
begin

text \<open>
  The entity class \<^verbatim>\<open>Marantz(MediaPlayerEntity)\<close> of
  \<^verbatim>\<open>src/custom_components/marantzusb/media_player.py\<close>: its attributes as a record, its
  constructor, the refresh \<^verbatim>\<open>update\<close>, the commands and the properties. Methods are
  state transformers of the entity (\<open>('r marantz, 'a) py\<close>); the vendor library object
  is the field \<open>mz_receiver\<close> and its behaviour the parameter \<open>v :: 'r vendor\<close>.
\<close>

section \<open>State\<close>

text \<open>\<^verbatim>\<open>STATE_ON\<close>, \<^verbatim>\<open>STATE_OFF\<close> of \<^verbatim>\<open>homeassistant.const\<close>.\<close>

datatype player_state = STATE_ON | STATE_OFF

text \<open>
  The attributes \<^verbatim>\<open>self._name\<close>, ..., \<^verbatim>\<open>self._sound_mode\<close>. A Python \<^verbatim>\<open>None\<close> is
  \<open>None\<close>. \<^verbatim>\<open>__init__\<close> never assigns \<^verbatim>\<open>self._sound_mode\<close>: the outer \<open>None\<close> of
  \<open>mz_sound_mode\<close> is an attribute that does not exist yet.
\<close>

record 'r marantz =
  mz_name :: string
  mz_receiver :: 'r
  mz_min_volume :: int
  mz_max_volume :: int
  mz_source_dict :: "(string, string) pydict"
  mz_sound_mode_dict :: "(string, string) pydict"
  mz_reverse_mapping :: "(string, string) pydict"
  mz_reverse_mapping_sound_mode :: "(string, string) pydict"
  mz_unique_id :: string
  mz_volume :: "real option"
  mz_state :: "player_state option"
  mz_mute :: "bool option"
  mz_source :: "string option"
  mz_sound_mode :: "string option option"

section \<open>Constructor\<close>

definition marantz_init ::
  "string \<Rightarrow> 'r \<Rightarrow> int \<Rightarrow> int \<Rightarrow> (string, string) pydict \<Rightarrow> (string, string) pydict \<Rightarrow>
   string \<Rightarrow> 'r marantz" where
  "marantz_init name marantz_receiver min_volume max_volume source_dict sound_mode_dict unique_id =
     \<lparr>mz_name = name, mz_receiver = marantz_receiver,
      mz_min_volume = min_volume, mz_max_volume = max_volume,
      mz_source_dict = source_dict, mz_sound_mode_dict = sound_mode_dict,
      mz_reverse_mapping = dict_of_pairs (map (\<lambda>(key, value). (value, key)) source_dict),
      mz_reverse_mapping_sound_mode =
        dict_of_pairs (map (\<lambda>(key, value). (value, ''0'' @ key)) sound_mode_dict),
      mz_unique_id = unique_id,
      mz_volume = None, mz_state = None, mz_mute = None, mz_source = None,
      mz_sound_mode = None\<rparr>"

section \<open>Calls into the vendor library\<close>

text \<open>\<^verbatim>\<open>self._marantz_receiver.main_<command>(op, value)\<close>: the library object's
  state is threaded through the entity.\<close>

definition receiver_call :: "'r vendor \<Rightarrow> call \<Rightarrow> ('r marantz, pyval) py" where
  "receiver_call v c = (\<lambda>s. case v c (mz_receiver s) of (res, r') \<Rightarrow> (res, s\<lparr>mz_receiver := r'\<rparr>))"

section \<open>Refresh\<close>

definition update :: "'r vendor \<Rightarrow> ('r marantz, unit) py" where
  "update v =
     py_bind (receiver_call v (query MainPower)) (\<lambda>power.
     py_bind (py_modify (\<lambda>s. s\<lparr>mz_state := Some (if power = PyStr ''1'' then STATE_OFF else STATE_ON)\<rparr>)) (\<lambda>_.
     py_bind (receiver_call v (query MainMute)) (\<lambda>mute.
     py_bind (py_modify (\<lambda>s. s\<lparr>mz_mute := Some (if mute = PyStr ''1'' then False else True)\<rparr>)) (\<lambda>_.
     py_bind (receiver_call v (query MainVolume)) (\<lambda>volume_result.
     py_bind (if volume_result \<noteq> PyNone then
                py_bind (py_eval (\<lambda>s. calc_volume (mz_min_volume s) (mz_max_volume s) volume_result))
                  (\<lambda>x. py_modify (\<lambda>s. s\<lparr>mz_volume := Some x\<rparr>))
              else py_return ()) (\<lambda>_.
     py_bind (receiver_call v (query MainSource)) (\<lambda>src.
     py_bind (py_modify (\<lambda>s. s\<lparr>mz_source := dict_get_pyval (mz_source_dict s) src\<rparr>)) (\<lambda>_.
     py_bind (receiver_call v (query MainSoundMode)) (\<lambda>sm.
     py_modify (\<lambda>s. s\<lparr>mz_sound_mode := Some (dict_get_pyval (mz_sound_mode_dict s) sm)\<rparr>))))))))))"

section \<open>Commands\<close>

text \<open>A method that calls the library once and discards the reply.\<close>

definition send :: "'r vendor \<Rightarrow> call \<Rightarrow> ('r marantz, unit) py" where
  "send v c = py_bind (receiver_call v c) (\<lambda>_. py_return ())"

definition turn_off :: "'r vendor \<Rightarrow> ('r marantz, unit) py" where
  "turn_off v = send v (write_code MainPower ''3'')"

definition turn_on :: "'r vendor \<Rightarrow> ('r marantz, unit) py" where
  "turn_on v = send v (write_code MainPower ''2'')"

definition volume_up :: "'r vendor \<Rightarrow> ('r marantz, unit) py" where
  "volume_up v = send v (write_code MainVolume ''1'')"

definition volume_down :: "'r vendor \<Rightarrow> ('r marantz, unit) py" where
  "volume_down v = send v (write_code MainVolume ''2'')"

definition set_volume_level :: "'r vendor \<Rightarrow> real \<Rightarrow> ('r marantz, unit) py" where
  "set_volume_level v volume =
     py_bind (py_eval (\<lambda>s. Inr (''0'' @ str_of_int (calc_db (mz_min_volume s) (mz_max_volume s) volume))))
       (\<lambda>vol_calc. send v (write_code MainVolume vol_calc))"

text \<open>\<^verbatim>\<open>mapping.get(name)\<close>, passed on as a Python value (\<^verbatim>\<open>None\<close> when unmapped).\<close>

definition pyval_of :: "string option \<Rightarrow> pyval" where
  "pyval_of x = (case x of None \<Rightarrow> PyNone | Some c \<Rightarrow> PyStr c)"

definition select_source :: "'r vendor \<Rightarrow> string \<Rightarrow> ('r marantz, unit) py" where
  "select_source v source =
     py_bind (py_eval (\<lambda>s. Inr (pyval_of (dict_get (mz_reverse_mapping s) source))))
       (\<lambda>code. send v (Call MainSource '':'' code))"

definition select_sound_mode :: "'r vendor \<Rightarrow> string \<Rightarrow> ('r marantz, unit) py" where
  "select_sound_mode v sound_mode =
     py_bind (py_eval (\<lambda>s. Inr (pyval_of (dict_get (mz_reverse_mapping_sound_mode s) sound_mode))))
       (\<lambda>code. send v (Call MainSoundMode '':'' code))"

definition mute_volume :: "'r vendor \<Rightarrow> bool \<Rightarrow> ('r marantz, unit) py" where
  "mute_volume v mute =
     (if mute then send v (write_code MainMute ''2'') else send v (write_code MainMute ''1''))"

section \<open>Properties\<close>

definition name :: "'r marantz \<Rightarrow> string" where
  "name s = mz_name s"

definition state :: "'r marantz \<Rightarrow> player_state option" where
  "state s = mz_state s"

definition volume_level :: "'r marantz \<Rightarrow> real option" where
  "volume_level s = mz_volume s"

definition is_volume_muted :: "'r marantz \<Rightarrow> bool option" where
  "is_volume_muted s = mz_mute s"

definition source :: "'r marantz \<Rightarrow> string option" where
  "source s = mz_source s"

text \<open>Reading \<^verbatim>\<open>self._sound_mode\<close> before it was ever assigned raises
  \<^verbatim>\<open>AttributeError\<close>.\<close>

definition sound_mode :: "'r marantz \<Rightarrow> exn + string option" where
  "sound_mode s = (case mz_sound_mode s of None \<Rightarrow> Inl AttributeError | Some m \<Rightarrow> Inr m)"

definition source_list :: "'r marantz \<Rightarrow> string list" where
  "source_list s = sort (dict_keys (mz_reverse_mapping s))"

definition sound_mode_list :: "'r marantz \<Rightarrow> string list" where
  "sound_mode_list s = sort (dict_keys (mz_reverse_mapping_sound_mode s))"

definition unique_id :: "'r marantz \<Rightarrow> string" where
  "unique_id s = mz_unique_id s"

section \<open>Abstract contract of the refresh\<close>

text \<open>
  What the host sees of the entity, and the refresh as spec.md (section 4.2) describes it:
  power reply \<^verbatim>\<open>'1'\<close> is off and anything else on, mute reply \<^verbatim>\<open>'1'\<close> is
  not muted and anything else muted, an absent volume reply keeps the cached volume and a
  decibel value \<open>d\<close> becomes \<open>|min - d| / |min - max|\<close>, source and sound mode are
  the configured names of the reported codes.
\<close>

record view =
  view_state :: "player_state option"
  view_mute :: "bool option"
  view_volume :: "real option"
  view_source :: "string option"
  view_sound_mode :: "string option option"

definition view_of :: "'r marantz \<Rightarrow> view" where
  "view_of s = \<lparr>view_state = mz_state s, view_mute = mz_mute s, view_volume = mz_volume s,
     view_source = mz_source s, view_sound_mode = mz_sound_mode s\<rparr>"

definition refresh_spec ::
  "int \<Rightarrow> int \<Rightarrow> (string, string) pydict \<Rightarrow> (string, string) pydict \<Rightarrow>
   pyval \<Rightarrow> pyval \<Rightarrow> int option \<Rightarrow> pyval \<Rightarrow> pyval \<Rightarrow> view \<Rightarrow> view" where
  "refresh_spec min_db max_db sources modes power_reply mute_reply decibel src mode w =
     \<lparr>view_state = Some (if power_reply = PyStr ''1'' then STATE_OFF else STATE_ON),
      view_mute = Some (mute_reply \<noteq> PyStr ''1''),
      view_volume = (case decibel of None \<Rightarrow> view_volume w
                      | Some d \<Rightarrow> Some (of_int \<bar>min_db - d\<bar> / of_int \<bar>min_db - max_db\<bar>)),
      view_source = (case src of PyStr c \<Rightarrow> map_of sources c | _ \<Rightarrow> None),
      view_sound_mode = Some (case mode of PyStr c \<Rightarrow> map_of modes c | _ \<Rightarrow> None)\<rparr>"

text \<open>The part of the entity fixed by the constructor.\<close>

definition config_of :: "'r marantz \<Rightarrow>
    string \<times> int \<times> int \<times> (string, string) pydict \<times> (string, string) pydict \<times>
    (string, string) pydict \<times> (string, string) pydict \<times> string" where
  "config_of s = (mz_name s, mz_min_volume s, mz_max_volume s, mz_source_dict s,
     mz_sound_mode_dict s, mz_reverse_mapping s, mz_reverse_mapping_sound_mode s, mz_unique_id s)"

definition int_reply :: "int option \<Rightarrow> pyval" where
  "int_reply x = (case x of None \<Rightarrow> PyNone | Some d \<Rightarrow> PyInt d)"

text \<open>The reverse lookup tables are the constructor's comprehensions of the mappings.\<close>

definition mappings_inv :: "'r marantz \<Rightarrow> bool" where
  "mappings_inv s \<longleftrightarrow>
     mz_reverse_mapping s = dict_of_pairs (map (\<lambda>(key, value). (value, key)) (mz_source_dict s)) \<and>
     mz_reverse_mapping_sound_mode s =
       dict_of_pairs (map (\<lambda>(key, value). (value, ''0'' @ key)) (mz_sound_mode_dict s))"

text \<open>An entity as the default configuration builds it, with two sources and two sound
  modes, over any receiver state.\<close>

definition demo_entity :: "'r \<Rightarrow> 'r marantz" where
  "demo_entity r = marantz_init ''Marantz Receiver'' r (-71) (-1)
     [(''11'', ''CD''), (''12'', ''Tuner'')] [(''3'', ''Stereo''), (''4'', ''Direct'')] ''''"

lemmas call_defs = receiver_call_def send_def query_def write_code_def

lemmas demo_defs = demo_entity_def marantz_init_def demo_replies_def int_reply_def

section \<open>Lemmas on the refresh\<close>

lemma update_config: "config_of (snd (update v s)) = config_of s"
  by (simp add: update_def call_defs config_of_def split: prod.splits sum.splits)

lemma update_Inr_sound_mode: "fst (update v s) = Inr () \<Longrightarrow> mz_sound_mode (snd (update v s)) \<noteq> None"
  by (auto simp: update_def receiver_call_def split: prod.splits sum.splits if_splits)

lemma demo_chain:
  "table_vendor demo_replies (query MainPower) (mz_receiver (demo_entity [])) =
     (Inr (PyStr ''1''), [query MainPower])"
  "table_vendor demo_replies (query MainMute) [query MainPower] =
     (Inr (PyStr ''2''), [query MainPower, query MainMute])"
  "table_vendor demo_replies (query MainVolume) [query MainPower, query MainMute] =
     (Inr (int_reply (Some (-36))), [query MainPower, query MainMute, query MainVolume])"
  "table_vendor demo_replies (query MainSource) [query MainPower, query MainMute, query MainVolume] =
     (Inr (PyStr ''11''), [query MainPower, query MainMute, query MainVolume, query MainSource])"
  "table_vendor demo_replies (query MainSoundMode)
     [query MainPower, query MainMute, query MainVolume, query MainSource] =
     (Inr (PyStr ''3''), map query [MainPower, MainMute, MainVolume, MainSource, MainSoundMode])"
  "mz_min_volume (demo_entity []) \<noteq> mz_max_volume (demo_entity [])"
  by (simp_all add: demo_defs)

text \<open>C1. Refinement of the refresh: when the five queries answer, in this order, power,
  mute, an integer or absent volume, source and sound mode, and the volume range is not
  empty, \<^verbatim>\<open>update\<close> returns normally and leaves exactly the view spec.md describes.\<close>

theorem update_refines_refresh_spec:
  assumes "v (query MainPower) (mz_receiver s) = (Inr p, r1)"
    and "v (query MainMute) r1 = (Inr m, r2)"
    and "v (query MainVolume) r2 = (Inr (int_reply x), r3)"
    and "v (query MainSource) r3 = (Inr src, r4)"
    and "v (query MainSoundMode) r4 = (Inr mode, r5)"
    and "mz_min_volume s \<noteq> mz_max_volume s"
  shows "fst (update v s) = Inr () \<and> mz_receiver (snd (update v s)) = r5 \<and>
         view_of (snd (update v s)) =
           refresh_spec (mz_min_volume s) (mz_max_volume s) (mz_source_dict s)
             (mz_sound_mode_dict s) p m x src mode (view_of s)"
  using assms
  by (cases x; cases src; cases mode)
     (simp_all add: update_def receiver_call_def refresh_spec_def view_of_def int_reply_def
       calc_volume_def dict_get_def)

theorem update_refines_refresh_spec_witness:
  "fst (update (table_vendor demo_replies) (demo_entity [])) = Inr () \<and>
   view_of (snd (update (table_vendor demo_replies) (demo_entity []))) =
     \<lparr>view_state = Some STATE_OFF, view_mute = Some True, view_volume = Some (1/2),
      view_source = Some ''CD'', view_sound_mode = Some (Some ''Stereo'')\<rparr>"
proof -
  have spec: "refresh_spec (mz_min_volume (demo_entity [])) (mz_max_volume (demo_entity []))
      (mz_source_dict (demo_entity [])) (mz_sound_mode_dict (demo_entity [])) (PyStr ''1'')
      (PyStr ''2'') (Some (-36)) (PyStr ''11'') (PyStr ''3'') (view_of (demo_entity [])) =
    \<lparr>view_state = Some STATE_OFF, view_mute = Some True, view_volume = Some (1/2),
     view_source = Some ''CD'', view_sound_mode = Some (Some ''Stereo'')\<rparr>"
    by (simp add: refresh_spec_def demo_defs view_of_def)
  show ?thesis using update_refines_refresh_spec [OF demo_chain] spec by simp
qed

text \<open>C6. The refresh is not atomic: when the source query raises, the exception
  propagates and the power state, mute flag and volume written before it stay, while source
  and sound mode keep their old values.\<close>

theorem update_source_error:
  assumes "v (query MainPower) (mz_receiver s) = (Inr p, r1)"
    and "v (query MainMute) r1 = (Inr m, r2)"
    and "v (query MainVolume) r2 = (Inr (int_reply x), r3)"
    and "v (query MainSource) r3 = (Inl e, r4)"
    and "mz_min_volume s \<noteq> mz_max_volume s"
  shows "update v s = (Inl e,
           s\<lparr>mz_receiver := r4, mz_state := Some (if p = PyStr ''1'' then STATE_OFF else STATE_ON),
             mz_mute := Some (m \<noteq> PyStr ''1''),
             mz_volume := (case x of None \<Rightarrow> mz_volume s
               | Some d \<Rightarrow> Some (of_int \<bar>mz_min_volume s - d\<bar> / of_int \<bar>mz_min_volume s - mz_max_volume s\<bar>))\<rparr>)"
  using assms by (cases x) (simp_all add: update_def receiver_call_def calc_volume_def int_reply_def)

theorem update_source_error_witness:
  "update (table_vendor (demo_replies(MainSource := Inl (VendorError ''timeout'')))) (demo_entity []) =
     (Inl (VendorError ''timeout''),
      (demo_entity [])\<lparr>mz_receiver := map query [MainPower, MainMute, MainVolume, MainSource],
        mz_state := Some STATE_OFF, mz_mute := Some True, mz_volume := Some (1/2)\<rparr>)"
  using update_source_error [of "table_vendor (demo_replies(MainSource := Inl (VendorError ''timeout'')))"
      "demo_entity []" "PyStr ''1''" "[query MainPower]" "PyStr ''2''" "[query MainPower, query MainMute]"
      "Some (-36)" "[query MainPower, query MainMute, query MainVolume]" "VendorError ''timeout''"
      "map query [MainPower, MainMute, MainVolume, MainSource]"]
  by (simp add: demo_defs)

text \<open>C12. An absent volume reply leaves the cached volume unchanged, whatever the later
  queries do.\<close>

theorem update_volume_absent:
  assumes "v (query MainPower) (mz_receiver s) = (Inr p, r1)"
    and "v (query MainMute) r1 = (Inr m, r2)"
    and "v (query MainVolume) r2 = (Inr PyNone, r3)"
  shows "mz_volume (snd (update v s)) = mz_volume s"
  using assms by (simp add: update_def receiver_call_def split: prod.splits sum.splits)

theorem update_volume_absent_witness:
  "mz_volume (snd (update (table_vendor (demo_replies(MainVolume := Inr PyNone)))
      ((demo_entity [])\<lparr>mz_volume := Some (1/4)\<rparr>))) = Some (1/4)"
  using update_volume_absent [of "table_vendor (demo_replies(MainVolume := Inr PyNone))"
      "(demo_entity [])\<lparr>mz_volume := Some (1/4)\<rparr>" "PyStr ''1''" "[query MainPower]"
      "PyStr ''2''" "[query MainPower, query MainMute]"
      "[query MainPower, query MainMute, query MainVolume]"]
  by (simp add: demo_defs)

text \<open>C13. A volume reply that is a string makes \<^verbatim>\<open>calc_volume\<close> raise
  \<^verbatim>\<open>TypeError\<close> (an \<^verbatim>\<open>int\<close> minus a \<^verbatim>\<open>str\<close>); the refresh aborts after writing
  the power state and mute flag.\<close>

theorem update_volume_type_error:
  assumes "v (query MainPower) (mz_receiver s) = (Inr p, r1)"
    and "v (query MainMute) r1 = (Inr m, r2)"
    and "v (query MainVolume) r2 = (Inr (PyStr t), r3)"
  shows "update v s = (Inl TypeError,
           s\<lparr>mz_receiver := r3, mz_state := Some (if p = PyStr ''1'' then STATE_OFF else STATE_ON),
             mz_mute := Some (m \<noteq> PyStr ''1'')\<rparr>)"
  using assms by (simp add: update_def receiver_call_def calc_volume_def)

theorem update_volume_type_error_witness:
  "update (table_vendor (demo_replies(MainVolume := Inr (PyStr ''-36'')))) (demo_entity []) =
     (Inl TypeError, (demo_entity [])\<lparr>mz_receiver := map query [MainPower, MainMute, MainVolume],
        mz_state := Some STATE_OFF, mz_mute := Some True\<rparr>)"
  using update_volume_type_error [of "table_vendor (demo_replies(MainVolume := Inr (PyStr ''-36'')))"
      "demo_entity []" "PyStr ''1''" "[query MainPower]" "PyStr ''2''" "[query MainPower, query MainMute]"
      "''-36''" "map query [MainPower, MainMute, MainVolume]"]
  by (simp add: demo_defs)

text \<open>C14. With \<open>min_volume = max_volume\<close> an integer volume reply makes
  \<^verbatim>\<open>calc_volume\<close> divide by zero: the refresh raises \<^verbatim>\<open>ZeroDivisionError\<close>.\<close>

theorem update_zero_division:
  assumes "v (query MainPower) (mz_receiver s) = (Inr p, r1)"
    and "v (query MainMute) r1 = (Inr m, r2)"
    and "v (query MainVolume) r2 = (Inr (PyInt d), r3)"
    and "mz_min_volume s = mz_max_volume s"
  shows "update v s = (Inl ZeroDivisionError,
           s\<lparr>mz_receiver := r3, mz_state := Some (if p = PyStr ''1'' then STATE_OFF else STATE_ON),
             mz_mute := Some (m \<noteq> PyStr ''1'')\<rparr>)"
  using assms by (simp add: update_def receiver_call_def calc_volume_def)

theorem update_zero_division_witness:
  "update (table_vendor demo_replies) ((demo_entity [])\<lparr>mz_max_volume := -71\<rparr>) =
     (Inl ZeroDivisionError, (demo_entity [])\<lparr>mz_max_volume := -71,
        mz_receiver := map query [MainPower, MainMute, MainVolume],
        mz_state := Some STATE_OFF, mz_mute := Some True\<rparr>)"
  using update_zero_division [of "table_vendor demo_replies" "(demo_entity [])\<lparr>mz_max_volume := -71\<rparr>"
      "PyStr ''1''" "[query MainPower]" "PyStr ''2''" "[query MainPower, query MainMute]"
      "-36" "map query [MainPower, MainMute, MainVolume]"]
  by (simp add: demo_defs)

text \<open>C23. \<^verbatim>\<open>__init__\<close> never assigns \<^verbatim>\<open>self._sound_mode\<close>: reading the
  \<^verbatim>\<open>sound_mode\<close> property of a new entity raises \<^verbatim>\<open>AttributeError\<close>.\<close>

theorem sound_mode_init: "sound_mode (marantz_init n r mn mx sd smd u) = Inl AttributeError"
  by (simp add: sound_mode_def marantz_init_def)

text \<open>C24. After a refresh that returns normally, the \<^verbatim>\<open>sound_mode\<close> property is
  defined.\<close>

theorem update_sound_mode_defined:
  "fst (update v s) = Inr () \<Longrightarrow> \<exists>m. sound_mode (snd (update v s)) = Inr m"
  using update_Inr_sound_mode by (force simp: sound_mode_def)

theorem update_sound_mode_defined_witness:
  "\<exists>m. sound_mode (snd (update (table_vendor demo_replies) (demo_entity []))) = Inr m"
proof -
  have "fst (update (table_vendor demo_replies) (demo_entity [])) = Inr ()"
    by (simp add: update_def receiver_call_def demo_defs calc_volume_def)
  then show ?thesis by (rule update_sound_mode_defined)
qed

end
