(* ===== verification/Commands.thy ===== *)
theory Commands
  imports Marantz
begin

text \<open>
  What the commands and properties of \<^verbatim>\<open>Marantz\<close> (lines 146 to 204 of
  \<^verbatim>\<open>media_player.py\<close>) do with the reverse tables that \<^verbatim>\<open>__init__\<close> builds:
  \<^verbatim>\<open>select_source\<close> and \<^verbatim>\<open>select_sound_mode\<close> send back the code of a
  configured name, the last one configured when names repeat and \<^verbatim>\<open>None\<close> for an
  unknown name; \<^verbatim>\<open>source_list\<close> and \<^verbatim>\<open>sound_mode_list\<close> are the configured names
  in order; \<^verbatim>\<open>set_volume_level\<close> formats the decibel value as \<^verbatim>\<open>'0'\<close> followed
  by \<^verbatim>\<open>str\<close> of it. The frame lemma \<open>send_frame\<close> says a command changes nothing
  but the library state.
\<close>

section \<open>Lemmas on the commands and properties\<close>

lemma mappings_inv_init: "mappings_inv (marantz_init n r mn mx sd smd u)"
  by (simp add: mappings_inv_def marantz_init_def)

lemma map_of_rev_swap:
  assumes "distinct (map snd ps)" and "map_of ps k = Some n"
  shows "map_of (rev (map (\<lambda>(key, value). (value, f key)) ps)) n = Some (f k)"
proof -
  have "(k, n) \<in> set ps" using assms(2) by (rule map_of_SomeD)
  then have "(n, f k) \<in> set (rev (map (\<lambda>(key, value). (value, f key)) ps))" by force
  moreover have "map fst (map (\<lambda>(key, value). (value, f key)) ps) = map snd ps"
    by (induction ps) auto
  then have "distinct (map fst (rev (map (\<lambda>(key, value). (value, f key)) ps)))"
    using assms(1) by (simp only: rev_map [symmetric] distinct_rev)
  ultimately show ?thesis by (rule map_of_is_SomeI [rotated])
qed

lemma send_frame: "snd (send v c s) = s\<lparr>mz_receiver := snd (v c (mz_receiver s))\<rparr>"
  by (simp add: send_def receiver_call_def split: prod.splits sum.splits)

lemma dict_keys_dict_of_pairs:
  "distinct (dict_keys (dict_of_pairs ps)) \<and> set (dict_keys (dict_of_pairs ps)) = set (map fst ps)"
  using dict_of_pairs_wf [of ps] set_keys_dict_of_pairs [of ps]
  by (simp add: dict_wf_def dict_keys_def)

lemma sort_keys_reverse:
  "sort (dict_keys (dict_of_pairs (map (\<lambda>(key, value). (value, f key)) d))) =
   sorted_list_of_set (set (dict_values d))"
proof -
  let ?ks = "dict_keys (dict_of_pairs (map (\<lambda>(key, value). (value, f key)) d))"
  have "distinct ?ks" and "set ?ks = set (dict_values d)"
    using dict_keys_dict_of_pairs [of "map (\<lambda>(key, value). (value, f key)) d"]
    by (auto simp: dict_values_def case_prod_beta comp_def)
  moreover from \<open>distinct ?ks\<close> have "sort ?ks = sorted_list_of_set (set ?ks)"
    by (simp add: sorted_list_of_set_sort_remdups distinct_remdups_id)
  ultimately show ?thesis by simp
qed

text \<open>C16. Round trip of sources: when display names are distinct, selecting the name
  the refresh showed for a source code sends that code back to the receiver.\<close>

theorem select_source_roundtrip:
  assumes "mappings_inv s"
    and "distinct (dict_values (mz_source_dict s))"
    and "dict_get (mz_source_dict s) k = Some n"
  shows "select_source v n s = send v (Call MainSource '':'' (PyStr k)) s"
proof -
  have "dict_get (mz_reverse_mapping s) n = Some k"
    using assms map_of_rev_swap [of "mz_source_dict s" k n "\<lambda>x. x"]
    by (simp add: mappings_inv_def dict_simps)
  then show ?thesis by (simp add: select_source_def pyval_of_def)
qed

theorem select_source_roundtrip_witness:
  "select_source (table_vendor demo_replies) ''Tuner'' (demo_entity ([] :: call list)) = send (table_vendor demo_replies) (Call MainSource '':'' (PyStr ''12'')) (demo_entity ([] :: call list))"
  by (rule select_source_roundtrip) (simp_all add: demo_entity_def mappings_inv_init,
      simp_all add: marantz_init_def dict_simps)

text \<open>C17. Round trip of sound modes: with distinct names, selecting the name shown for
  a sound-mode code sends that code with the \<^verbatim>\<open>'0'\<close> prefix of
  \<^verbatim>\<open>"0{}".format(key)\<close>.\<close>

theorem select_sound_mode_roundtrip:
  assumes "mappings_inv s"
    and "distinct (dict_values (mz_sound_mode_dict s))"
    and "dict_get (mz_sound_mode_dict s) k = Some n"
  shows "select_sound_mode v n s = send v (Call MainSoundMode '':'' (PyStr (''0'' @ k))) s"
proof -
  have "dict_get (mz_reverse_mapping_sound_mode s) n = Some (''0'' @ k)"
    using assms map_of_rev_swap [of "mz_sound_mode_dict s" k n "\<lambda>x. ''0'' @ x"]
    by (simp add: mappings_inv_def dict_simps)
  then show ?thesis by (simp add: select_sound_mode_def pyval_of_def)
qed

theorem select_sound_mode_roundtrip_witness:
  "select_sound_mode (table_vendor demo_replies) ''Direct'' (demo_entity ([] :: call list)) =
   send (table_vendor demo_replies) (Call MainSoundMode '':'' (PyStr ''04'')) (demo_entity ([] :: call list))"
  using select_sound_mode_roundtrip [of "demo_entity ([] :: call list)" "''4''" "''Direct''" "table_vendor demo_replies"]
  by (simp add: demo_entity_def mappings_inv_init, simp add: marantz_init_def dict_simps)

text \<open>C18. Two codes configured with the same display name: the dict comprehension keeps
  the last one, so selecting that name always sends the code configured last.\<close>

theorem select_source_last_key:
  assumes "n \<notin> set (map snd ys)"
  shows "select_source v n (marantz_init nm r mn mx (xs @ (k, n) # ys) smd u) =
         send v (Call MainSource '':'' (PyStr k)) (marantz_init nm r mn mx (xs @ (k, n) # ys) smd u)"
proof -
  have "map_of (rev (map (\<lambda>(key, value). (value, key)) ys)) n = None"
    using assms by (force simp: map_of_eq_None_iff)
  then have "map_of (rev (map (\<lambda>(key, value). (value, key)) (xs @ (k, n) # ys))) n = Some k"
    by (simp add: map_add_def)
  then show ?thesis
    by (simp add: select_source_def marantz_init_def pyval_of_def dict_simps)
qed

theorem select_source_last_key_witness:
  "select_source (table_vendor demo_replies) ''CD'' (marantz_init ''M'' ([] :: call list) (-71) (-1) [(''11'', ''CD''), (''13'', ''CD'')] [] '''') =
   send (table_vendor demo_replies) (Call MainSource '':'' (PyStr ''13''))
     (marantz_init ''M'' ([] :: call list) (-71) (-1) [(''11'', ''CD''), (''13'', ''CD'')] [] '''')"
  using select_source_last_key [of "''CD''" "[]" "table_vendor demo_replies" "''M''" "[] :: call list" "-71" "-1" "[(''11'', ''CD'')]" "''13''" "[]" "''''"]
  by simp

text \<open>C19. Selecting a name that is not configured sends \<^verbatim>\<open>None\<close> as the source
  code (spec.md section 8).\<close>

theorem select_source_unmapped:
  assumes "mappings_inv s" and "n \<notin> set (dict_values (mz_source_dict s))"
  shows "select_source v n s = send v (Call MainSource '':'' PyNone) s"
proof -
  have "dict_get (mz_reverse_mapping s) n = None"
    using assms by (force simp: mappings_inv_def dict_simps map_of_eq_None_iff)
  then show ?thesis by (simp add: select_source_def pyval_of_def)
qed

theorem select_source_unmapped_witness:
  "select_source (table_vendor demo_replies) ''Phono'' (demo_entity ([] :: call list)) = send (table_vendor demo_replies) (Call MainSource '':'' PyNone) (demo_entity ([] :: call list))"
  by (rule select_source_unmapped) (simp_all add: demo_entity_def mappings_inv_init,
      simp add: marantz_init_def dict_values_def)

text \<open>C20. \<^verbatim>\<open>source_list\<close> is the set of configured display names in lexicographic
  order, each once.\<close>

theorem source_list_sorted_names:
  assumes "mappings_inv s"
  shows "source_list s = sorted_list_of_set (set (dict_values (mz_source_dict s)))"
  using assms sort_keys_reverse [of "\<lambda>x. x" "mz_source_dict s"]
  by (simp add: mappings_inv_def source_list_def)

theorem source_list_sorted_names_witness:
  "source_list (marantz_init ''M'' ([] :: call list) (-71) (-1) [(''2'', ''Tuner''), (''1'', ''CD''), (''3'', ''CD'')] [] '''') =
   [''CD'', ''Tuner'']"
  using source_list_sorted_names [OF mappings_inv_init, of "''M''" "[] :: call list" "-71" "-1"
      "[(''2'', ''Tuner''), (''1'', ''CD''), (''3'', ''CD'')]" "[]" "''''"]
  by (simp add: marantz_init_def dict_values_def)

text \<open>C21. \<^verbatim>\<open>sound_mode_list\<close> is the set of configured sound-mode names in
  lexicographic order, each once.\<close>

theorem sound_mode_list_sorted_names:
  assumes "mappings_inv s"
  shows "sound_mode_list s = sorted_list_of_set (set (dict_values (mz_sound_mode_dict s)))"
  using assms sort_keys_reverse [of "\<lambda>x. ''0'' @ x" "mz_sound_mode_dict s"]
  by (simp add: mappings_inv_def sound_mode_list_def)

theorem sound_mode_list_sorted_names_witness:
  "sound_mode_list (demo_entity ([] :: call list)) = [''Direct'', ''Stereo'']"
  using sound_mode_list_sorted_names [OF mappings_inv_init, of "''Marantz Receiver''" "[] :: call list" "-71" "-1"
      "[(''11'', ''CD''), (''12'', ''Tuner'')]" "[(''3'', ''Stereo''), (''4'', ''Direct'')]" "''''"]
  by (simp add: demo_entity_def marantz_init_def dict_values_def)

text \<open>The order in which sources are configured does not change \<^verbatim>\<open>source_list\<close>.\<close>

lemma source_list_order_independent:
  assumes "set sd1 = set sd2"
  shows "source_list (marantz_init n1 r1 mn1 mx1 sd1 smd1 u1) =
         source_list (marantz_init n2 r2 mn2 mx2 sd2 smd2 u2)"
proof -
  have "set (dict_values sd1) = set (dict_values sd2)"
    using assms by (metis dict_values_def set_map)
  then show ?thesis
    using sort_keys_reverse [of "\<lambda>x. x" sd1] sort_keys_reverse [of "\<lambda>x. x" sd2]
    by (simp add: marantz_init_def source_list_def)
qed

text \<open>C25. With the default range -71 to -1 dB, \<^verbatim>\<open>set_volume_level\<close> sends
  \<^verbatim>\<open>'0'\<close> followed by a negative number: the code is \<^verbatim>\<open>'0-'\<close> and one or two
  digits, never the two-character zero-padded code spec.md describes.\<close>

theorem set_volume_level_default_code:
  assumes "mz_min_volume s = -71" and "mz_max_volume s = -1" and "0 \<le> x" and "x \<le> 1"
  shows "\<exists>ds. set_volume_level v x s = send v (write_code MainVolume (''0-'' @ ds)) s \<and>
              length ds \<in> {1, 2}"
proof -
  let ?db = "calc_db (-71) (-1) x"
  have b: "-71 \<le> ?db \<and> ?db \<le> -1"
    unfolding calc_db_def using py_round_range_nonneg [of "-71" "-1" x] assms(3,4)
      py_round_mono [of "of_int \<bar>(-71) - (-1::int)\<bar> * x" "of_int \<bar>(-71) - (-1::int)\<bar>"]
    by simp
  let ?n = "nat (- ?db)"
  have n: "1 \<le> ?n \<and> ?n \<le> 71" using b by linarith
  have "length (digits_of_nat ?n) \<in> {1, 2}"
  proof (cases "?n < 10")
    case True
    then show ?thesis by (simp add: length_digits_of_nat [of ?n])
  next
    case False
    have "?n div 10 < 10" using n by linarith
    with False show ?thesis
      by (simp add: length_digits_of_nat [of ?n] length_digits_of_nat [of "?n div 10"])
  qed
  moreover have "''0'' @ str_of_int ?db = ''0-'' @ digits_of_nat ?n"
    using b by (simp add: str_of_int_def)
  moreover have "set_volume_level v x s = send v (write_code MainVolume (''0'' @ str_of_int ?db)) s"
    using assms(1,2) by (simp add: set_volume_level_def)
  ultimately show ?thesis by metis
qed

theorem set_volume_level_default_code_witness:
  "\<exists>ds. set_volume_level (table_vendor demo_replies) (1/2) (demo_entity ([] :: call list)) =
     send (table_vendor demo_replies) (write_code MainVolume (''0-'' @ ds)) (demo_entity ([] :: call list)) \<and> length ds \<in> {1, 2}"
  by (rule set_volume_level_default_code) (simp_all add: demo_entity_def marantz_init_def)

end
