(* ===== verification/Host.thy ===== *)
theory Host
  imports Commands
begin

text \<open>
  The host platform's side of the entity contract, modelled from spec.md (sections 4.2,
  5 and 6) since Home Assistant is not part of the repository: the services a user or the
  scheduler invokes, each gated by the \<^verbatim>\<open>MediaPlayerEntityFeature\<close> flags the entity
  reports (\<^verbatim>\<open>supported_features\<close>, \<^verbatim>\<open>SUPPORT_MARANTZ\<close> of the source), the dispatch to
  the entity's methods, the host's serialised run of them as a step relation, and the
  outbound calls spec.md lists for each service.
\<close>

unbundle bit_operations_syntax

section \<open>Feature flags\<close>

text \<open>\<^verbatim>\<open>homeassistant.components.media_player.MediaPlayerEntityFeature\<close>, an \<^verbatim>\<open>IntFlag\<close>.\<close>

datatype media_player_feature =
    PAUSE | SEEK | VOLUME_SET | VOLUME_MUTE | PREVIOUS_TRACK | NEXT_TRACK | TURN_ON | TURN_OFF
  | PLAY_MEDIA | VOLUME_STEP | SELECT_SOURCE | STOP | CLEAR_PLAYLIST | PLAY | SHUFFLE_SET
  | SELECT_SOUND_MODE | BROWSE_MEDIA | REPEAT_SET | GROUPING | MEDIA_ANNOUNCE | MEDIA_ENQUEUE
  | SEARCH_MEDIA

fun feature_value :: "media_player_feature \<Rightarrow> int" where
  "feature_value PAUSE = 1"
| "feature_value SEEK = 2"
| "feature_value VOLUME_SET = 4"
| "feature_value VOLUME_MUTE = 8"
| "feature_value PREVIOUS_TRACK = 16"
| "feature_value NEXT_TRACK = 32"
| "feature_value TURN_ON = 128"
| "feature_value TURN_OFF = 256"
| "feature_value PLAY_MEDIA = 512"
| "feature_value VOLUME_STEP = 1024"
| "feature_value SELECT_SOURCE = 2048"
| "feature_value STOP = 4096"
| "feature_value CLEAR_PLAYLIST = 8192"
| "feature_value PLAY = 16384"
| "feature_value SHUFFLE_SET = 32768"
| "feature_value SELECT_SOUND_MODE = 65536"
| "feature_value BROWSE_MEDIA = 131072"
| "feature_value REPEAT_SET = 262144"
| "feature_value GROUPING = 524288"
| "feature_value MEDIA_ANNOUNCE = 1048576"
| "feature_value MEDIA_ENQUEUE = 2097152"
| "feature_value SEARCH_MEDIA = 4194304"

text \<open>\<^verbatim>\<open>SUPPORT_MARANTZ\<close> and the property \<^verbatim>\<open>supported_features\<close>.\<close>

definition SUPPORT_MARANTZ :: int where
  "SUPPORT_MARANTZ =
     feature_value VOLUME_SET OR feature_value VOLUME_MUTE OR feature_value TURN_ON OR
     feature_value TURN_OFF OR feature_value VOLUME_STEP OR feature_value SELECT_SOURCE OR
     feature_value SELECT_SOUND_MODE"

definition supported_features :: "'r marantz \<Rightarrow> int" where
  "supported_features s = SUPPORT_MARANTZ"

definition has_feature :: "int \<Rightarrow> media_player_feature \<Rightarrow> bool" where
  "has_feature flags f \<longleftrightarrow> flags AND feature_value f \<noteq> 0"

section \<open>Services and their dispatch\<close>

text \<open>The periodic refresh, the services of the media player domain the entity
  implements, and one it does not implement (\<^verbatim>\<open>media_play\<close>).\<close>

datatype host_op =
    Update | TurnOn | TurnOff | VolumeUp | VolumeDown | SetVolumeLevel real
  | SelectSource string | SelectSoundMode string | MuteVolume bool | MediaPlay

text \<open>A method the entity does not override is the base class's, which raises
  \<^verbatim>\<open>NotImplementedError\<close>.\<close>

fun dispatch :: "'r vendor \<Rightarrow> host_op \<Rightarrow> ('r marantz, unit) py" where
  "dispatch v Update = update v"
| "dispatch v TurnOn = turn_on v"
| "dispatch v TurnOff = turn_off v"
| "dispatch v VolumeUp = volume_up v"
| "dispatch v VolumeDown = volume_down v"
| "dispatch v (SetVolumeLevel x) = set_volume_level v x"
| "dispatch v (SelectSource n) = select_source v n"
| "dispatch v (SelectSoundMode n) = select_sound_mode v n"
| "dispatch v (MuteVolume b) = mute_volume v b"
| "dispatch v MediaPlay = py_raise NotImplementedError"

text \<open>The features a service requires (any one of them suffices); the refresh needs none.\<close>

fun required_features :: "host_op \<Rightarrow> media_player_feature list" where
  "required_features Update = []"
| "required_features TurnOn = [TURN_ON]"
| "required_features TurnOff = [TURN_OFF]"
| "required_features VolumeUp = [VOLUME_SET, VOLUME_STEP]"
| "required_features VolumeDown = [VOLUME_SET, VOLUME_STEP]"
| "required_features (SetVolumeLevel x) = [VOLUME_SET]"
| "required_features (SelectSource n) = [SELECT_SOURCE]"
| "required_features (SelectSoundMode n) = [SELECT_SOUND_MODE]"
| "required_features (MuteVolume b) = [VOLUME_MUTE]"
| "required_features MediaPlay = [PLAY]"

text \<open>The host calls a service only if the entity reports a feature it requires, and
  validates \<^verbatim>\<open>volume_level\<close> as a float in \<open>[0, 1]\<close>.\<close>

definition service_allowed :: "'r marantz \<Rightarrow> host_op \<Rightarrow> bool" where
  "service_allowed s op \<longleftrightarrow>
     (required_features op = [] \<or> list_ex (has_feature (supported_features s)) (required_features op)) \<and>
     (case op of SetVolumeLevel x \<Rightarrow> 0 \<le> x \<and> x \<le> 1 | _ \<Rightarrow> True)"

section \<open>The host's run of the entity\<close>

text \<open>The host runs one method at a time; an exception is logged and the entity keeps
  the state the method left.\<close>

inductive host_step :: "'r vendor \<Rightarrow> 'r marantz \<Rightarrow> 'r marantz \<Rightarrow> bool" for v where
  service: "service_allowed s op \<Longrightarrow> host_step v s (snd (dispatch v op s))"

inductive reachable :: "'r vendor \<Rightarrow> 'r marantz \<Rightarrow> 'r marantz \<Rightarrow> bool" for v s0 where
  start: "reachable v s0 s0"
| step: "reachable v s0 s \<Longrightarrow> host_step v s t \<Longrightarrow> reachable v s0 t"

text \<open>What stays true while the host runs the entity: the constructor's fields, the
  reverse tables, a defined \<^verbatim>\<open>_sound_mode\<close>, and names that are configured names.\<close>

definition entity_inv :: "'r marantz \<Rightarrow> 'r marantz \<Rightarrow> bool" where
  "entity_inv s0 s \<longleftrightarrow>
     config_of s = config_of s0 \<and> mappings_inv s \<and> mz_sound_mode s \<noteq> None \<and>
     pred_option (\<lambda>n. n \<in> set (dict_values (mz_source_dict s))) (mz_source s) \<and>
     pred_option (pred_option (\<lambda>n. n \<in> set (dict_values (mz_sound_mode_dict s)))) (mz_sound_mode s)"

section \<open>Outbound calls\<close>

text \<open>
  spec.md, sections 4.2 and 6: the refresh queries power, mute, volume, source and sound
  mode with \<^verbatim>\<open>'?'\<close>; turn on/off writes \<^verbatim>\<open>'2'\<close>/\<^verbatim>\<open>'3'\<close> to power, volume up/down
  \<^verbatim>\<open>'1'\<close>/\<^verbatim>\<open>'2'\<close> to volume, mute on/off \<^verbatim>\<open>'2'\<close>/\<^verbatim>\<open>'1'\<close> to mute; set volume sends
  \<^verbatim>\<open>'0'\<close> followed by the decibel value \<open>min + round(|min - max| * level)\<close>; select
  source and sound mode send the reverse lookup of the name, absent when unmapped.
\<close>

fun spec_calls :: "'r marantz \<Rightarrow> host_op \<Rightarrow> call list" where
  "spec_calls s Update = map query [MainPower, MainMute, MainVolume, MainSource, MainSoundMode]"
| "spec_calls s TurnOn = [Call MainPower '':'' (PyStr ''2'')]"
| "spec_calls s TurnOff = [Call MainPower '':'' (PyStr ''3'')]"
| "spec_calls s VolumeUp = [Call MainVolume '':'' (PyStr ''1'')]"
| "spec_calls s VolumeDown = [Call MainVolume '':'' (PyStr ''2'')]"
| "spec_calls s (SetVolumeLevel x) =
     [Call MainVolume '':'' (PyStr (''0'' @ str_of_int (mz_min_volume s +
        py_round (of_int \<bar>mz_min_volume s - mz_max_volume s\<bar> * x))))]"
| "spec_calls s (SelectSource n) =
     [Call MainSource '':'' (case map_of (mz_reverse_mapping s) n of None \<Rightarrow> PyNone | Some c \<Rightarrow> PyStr c)]"
| "spec_calls s (SelectSoundMode n) =
     [Call MainSoundMode '':''
        (case map_of (mz_reverse_mapping_sound_mode s) n of None \<Rightarrow> PyNone | Some c \<Rightarrow> PyStr c)]"
| "spec_calls s (MuteVolume b) = [Call MainMute '':'' (PyStr (if b then ''2'' else ''1''))]"
| "spec_calls s MediaPlay = []"

text \<open>The receiver reports volumes within the configured range.\<close>

definition volume_replies_within :: "'r vendor \<Rightarrow> int \<Rightarrow> int \<Rightarrow> bool" where
  "volume_replies_within v mn mx \<longleftrightarrow>
     (\<forall>r r' d. v (query MainVolume) r = (Inr (PyInt d), r') \<longrightarrow> mn \<le> d \<and> d \<le> mx)"

definition volume_in_range :: "'r marantz \<Rightarrow> bool" where
  "volume_in_range s \<longleftrightarrow> pred_option (\<lambda>f. 0 \<le> f \<and> f \<le> 1) (mz_volume s)"

text \<open>The calls a library wrapped by \<open>logged\<close> has recorded.\<close>

definition calls_of :: "('r \<times> call list) marantz \<Rightarrow> call list" where
  "calls_of s = snd (mz_receiver s)"

section \<open>Lemmas\<close>

inductive_cases host_stepE: "host_step v s t"

lemmas command_defs = turn_on_def turn_off_def volume_up_def volume_down_def
  set_volume_level_def select_source_def select_sound_mode_def mute_volume_def send_frame py_raise_def

text \<open>C5. Only the refresh writes the cached state: every other service changes
  nothing of the entity but the vendor library's state (spec.md section 3).\<close>

theorem commands_frame:
  "op \<noteq> Update \<Longrightarrow> snd (dispatch v op s) = s\<lparr>mz_receiver := mz_receiver (snd (dispatch v op s))\<rparr>"
  by (cases op) (simp_all add: command_defs)

theorem commands_frame_witness:
  "snd (dispatch (table_vendor demo_replies) VolumeUp (demo_entity [])) =
   (demo_entity [])\<lparr>mz_receiver := mz_receiver (snd (dispatch (table_vendor demo_replies) VolumeUp (demo_entity [])))\<rparr>"
  by (rule commands_frame) simp

text \<open>C3. Refinement of the commands: every service but the refresh makes exactly the
  one library call spec.md lists for it, with the code it lists, whatever the library
  answers.\<close>

theorem dispatch_calls:
  "op \<noteq> Update \<Longrightarrow> calls_of (snd (dispatch (logged v) op s)) = calls_of s @ spec_calls s op"
  by (cases op) (simp_all add: command_defs calls_of_def logged_def write_code_def calc_db_def pyval_of_def dict_get_def
      split: prod.splits option.splits)
theorem dispatch_calls_witness:
  "calls_of (snd (dispatch (logged (table_vendor demo_replies)) (SetVolumeLevel (1/2))
      (demo_entity ([] :: call list, [] :: call list)))) = [Call MainVolume '':'' (PyStr ''0-36'')]"
proof -
  have "calls_of (snd (dispatch (logged (table_vendor demo_replies)) (SetVolumeLevel (1/2))
      (demo_entity ([] :: call list, [] :: call list)))) =
    calls_of (demo_entity ([] :: call list, [] :: call list)) @
      spec_calls (demo_entity ([] :: call list, [] :: call list)) (SetVolumeLevel (1/2))"
    by (rule dispatch_calls) simp
  also have "\<dots> = [Call MainVolume '':'' (PyStr ''0-36'')]"
    by (simp add: calls_of_def demo_entity_def marantz_init_def py_round_def str_of_int_def
        digits_of_nat.simps)
  finally show ?thesis .
qed

text \<open>C4. Ordering: a refresh that returns normally queries power, mute, volume, source
  and sound mode, in this order, each once, with the query marker.\<close>

theorem update_calls:
  "fst (update (logged v) s) = Inr () \<Longrightarrow>
   calls_of (snd (update (logged v) s)) = calls_of s @ spec_calls s Update"
  by (auto simp: update_def receiver_call_def logged_def calls_of_def split: prod.splits sum.splits if_splits)
theorem update_calls_witness:
  "calls_of (snd (update (logged (table_vendor demo_replies)) (demo_entity ([] :: call list, [] :: call list)))) =
   map query [MainPower, MainMute, MainVolume, MainSource, MainSoundMode]"
proof -
  have "fst (update (logged (table_vendor demo_replies)) (demo_entity ([] :: call list, [] :: call list))) = Inr ()"
    by (simp add: update_def receiver_call_def logged_def demo_defs calc_volume_def)
  then have "calls_of (snd (update (logged (table_vendor demo_replies))
      (demo_entity ([] :: call list, [] :: call list)))) =
    calls_of (demo_entity ([] :: call list, [] :: call list)) @
      spec_calls (demo_entity ([] :: call list, [] :: call list)) Update"
    by (rule update_calls)
  also have "\<dots> = map query [MainPower, MainMute, MainVolume, MainSource, MainSoundMode]"
    by (simp add: calls_of_def demo_entity_def marantz_init_def)
  finally show ?thesis .
qed

text \<open>\<^verbatim>\<open>supported_features\<close> reports exactly the seven features of
  \<^verbatim>\<open>SUPPORT_MARANTZ\<close> among the 22 flags of \<^verbatim>\<open>MediaPlayerEntityFeature\<close>.\<close>

lemma supported_features_exact:
  "has_feature (supported_features s) f \<longleftrightarrow>
   f \<in> {VOLUME_SET, VOLUME_MUTE, TURN_ON, TURN_OFF, VOLUME_STEP, SELECT_SOURCE, SELECT_SOUND_MODE}"
  by (cases f) (simp_all add: has_feature_def supported_features_def SUPPORT_MARANTZ_def)

lemma dispatch_frame: "op \<noteq> Update \<Longrightarrow> \<exists>r. snd (dispatch v op s) = s\<lparr>mz_receiver := r\<rparr>"
  by (cases op) (auto simp: command_defs intro: exI [of _ "mz_receiver s"])

lemma dispatch_config: "config_of (snd (dispatch v op s)) = config_of s"
proof (cases "op = Update")
  case True
  then show ?thesis by (simp add: update_config)
next
  case False
  from dispatch_frame [OF False]
  obtain r where "snd (dispatch v op s) = s\<lparr>mz_receiver := r\<rparr>" ..
  then show ?thesis by (simp add: config_of_def)
qed

lemma mappings_inv_config: "config_of s = config_of t \<Longrightarrow> mappings_inv s = mappings_inv t"
  by (simp add: config_of_def mappings_inv_def)

lemma update_source_cases:
  "mz_source (snd (update v s)) = mz_source s \<or>
   (\<exists>c. mz_source (snd (update v s)) = dict_get_pyval (mz_source_dict s) c)"
  by (auto simp: update_def receiver_call_def split: prod.splits sum.splits if_splits)

lemma update_sound_mode_cases:
  "mz_sound_mode (snd (update v s)) = mz_sound_mode s \<or>
   (\<exists>c. mz_sound_mode (snd (update v s)) = Some (dict_get_pyval (mz_sound_mode_dict s) c))"
  by (auto simp: update_def receiver_call_def split: prod.splits sum.splits if_splits)

lemma dict_get_pyval_value: "pred_option (\<lambda>n. n \<in> set (dict_values d)) (dict_get_pyval d c)"
proof (cases c)
  case (PyStr k)
  then show ?thesis
    by (cases "map_of d k") (auto simp: dict_get_def dict_values_def dest!: map_of_SomeD intro: rev_image_eqI)
qed simp_all

lemma entity_inv_receiver [simp]: "entity_inv s0 (s\<lparr>mz_receiver := r\<rparr>) = entity_inv s0 s"
  by (simp add: entity_inv_def config_of_def mappings_inv_def)

lemma update_names:
  assumes "pred_option (\<lambda>n. n \<in> set (dict_values (mz_source_dict s))) (mz_source s)"
    and "pred_option (pred_option (\<lambda>n. n \<in> set (dict_values (mz_sound_mode_dict s)))) (mz_sound_mode s)"
  shows "pred_option (\<lambda>n. n \<in> set (dict_values (mz_source_dict (snd (update v s)))))
           (mz_source (snd (update v s))) \<and>
         pred_option (pred_option (\<lambda>n. n \<in> set (dict_values (mz_sound_mode_dict (snd (update v s))))))
           (mz_sound_mode (snd (update v s)))"
proof -
  have "config_of (snd (update v s)) = config_of s" by (rule update_config)
  then have dicts: "mz_source_dict (snd (update v s)) = mz_source_dict s"
      "mz_sound_mode_dict (snd (update v s)) = mz_sound_mode_dict s"
    by (simp_all add: config_of_def)
  show ?thesis
    using update_source_cases [of v s] update_sound_mode_cases [of v s] assms dicts
      dict_get_pyval_value by auto
qed

lemma update_entity_inv: "entity_inv s0 s \<Longrightarrow> entity_inv s0 (snd (update v s))"
proof -
  assume inv: "entity_inv s0 s"
  let ?t = "snd (update v s)"
  have cfg: "config_of ?t = config_of s" by (rule update_config)
  have "mz_sound_mode ?t \<noteq> None"
    using update_sound_mode_cases [of v s] inv by (auto simp: entity_inv_def)
  then show ?thesis
    using inv cfg update_names [of s v] mappings_inv_config [OF cfg] by (simp add: entity_inv_def)
qed

lemma update_entity_inv_start:
  assumes "fst (update v e) = Inr ()" and "mappings_inv e"
    and "mz_source e = None" and "mz_sound_mode e = None"
  shows "entity_inv (snd (update v e)) (snd (update v e))"
proof -
  have cfg: "config_of (snd (update v e)) = config_of e" by (rule update_config)
  show ?thesis
    using update_Inr_sound_mode [OF assms(1)] update_names [of e v] assms(2-4)
      mappings_inv_config [OF cfg] by (simp add: entity_inv_def)
qed

lemma host_step_entity_inv: "host_step v s t \<Longrightarrow> entity_inv s0 s \<Longrightarrow> entity_inv s0 t"
proof (induction rule: host_step.induct)
  case (service s op)
  show ?case
  proof (cases "op = Update")
    case True
    with service.prems show ?thesis by (simp add: update_entity_inv)
  next
    case False
    from dispatch_frame [OF False]
    obtain r where "snd (dispatch v op s) = s\<lparr>mz_receiver := r\<rparr>" ..
    then show ?thesis using service.prems by simp
  qed
qed

lemma reachable_entity_inv: "reachable v s0 s \<Longrightarrow> entity_inv s0 s0 \<Longrightarrow> entity_inv s0 s"
  by (induction rule: reachable.induct) (auto intro: host_step_entity_inv)
lemma update_volume_in_range:
  assumes "mz_min_volume s < mz_max_volume s"
    and "volume_replies_within v (mz_min_volume s) (mz_max_volume s)" and "volume_in_range s"
  shows "volume_in_range (snd (update v s))"
  using assms fraction_bounds [of "mz_min_volume s" "mz_max_volume s"]
  unfolding volume_replies_within_def volume_in_range_def
  by (auto simp: update_def receiver_call_def calc_volume_def
      split: prod.splits sum.splits if_splits pyval.splits)

lemma reachable_config: "reachable v s0 s \<Longrightarrow> config_of s = config_of s0"
  by (induction rule: reachable.induct) (auto elim!: host_stepE simp: dispatch_config)

lemma host_step_volume:
  assumes "host_step v s t" and "mz_min_volume s < mz_max_volume s"
    and "volume_replies_within v (mz_min_volume s) (mz_max_volume s)" and "volume_in_range s"
  shows "volume_in_range t"
  using assms
proof (induction rule: host_step.induct)
  case (service s op)
  show ?case
  proof (cases "op = Update")
    case True
    with service.prems show ?thesis by (simp add: update_volume_in_range)
  next
    case False
    from dispatch_frame [OF False]
    obtain r where "snd (dispatch v op s) = s\<lparr>mz_receiver := r\<rparr>" ..
    with service.prems show ?thesis by (simp add: volume_in_range_def)
  qed
qed

lemma reachable_volume_in_range:
  assumes "reachable v s0 s" and "mz_min_volume s0 < mz_max_volume s0"
    and "volume_replies_within v (mz_min_volume s0) (mz_max_volume s0)" and "volume_in_range s0"
  shows "volume_in_range s"
  using assms
proof (induction rule: reachable.induct)
  case start
  then show ?case by simp
next
  case (step s t)
  have "config_of s = config_of s0" using step.hyps(1) by (rule reachable_config)
  then have "mz_min_volume s = mz_min_volume s0" "mz_max_volume s = mz_max_volume s0"
    by (simp_all add: config_of_def)
  with step show ?case by (metis host_step_volume)
qed

text \<open>C29. The host lets through exactly the services the entity implements: every one
  but \<^verbatim>\<open>media_play\<close>, whose base-class stub raises \<^verbatim>\<open>NotImplementedError\<close>;
  a volume level must lie in \<open>[0, 1]\<close>.\<close>

theorem service_allowed_iff:
  "service_allowed s op \<longleftrightarrow> op \<noteq> MediaPlay \<and> (case op of SetVolumeLevel x \<Rightarrow> 0 \<le> x \<and> x \<le> 1 | _ \<Rightarrow> True)"
  by (cases op) (simp_all add: service_allowed_def has_feature_def supported_features_def SUPPORT_MARANTZ_def)
end
