(* ===== verification/Run.thy ===== *)
theory Run
  imports Host
begin

text \<open>
  The host's worker runs the entity's services one at a time (spec.md section 5). A
  service the entity does not support is rejected before the entity sees it; a service
  that raises is logged and the entity keeps the state the method left (section 7).
  \<open>run\<close> executes a list of service calls and returns the exceptions logged, in order,
  with the final entity; \<open>host_steps\<close> is the same run as an inductive relation over the
  list, in the style of iterated transitions. \<open>answering\<close> is a receiver that replies
  to every query without raising, with an integer or no volume, and \<open>reliable\<close> one
  that answers every call, queries and writes; \<open>call_ok\<close> is a call of
  the library's interface, \<^verbatim>\<open>main_x(':', code)\<close> with a \<^verbatim>\<open>str\<close> or \<^verbatim>\<open>None\<close> code.
\<close>

section \<open>The host's run of a list of services\<close>

fun run :: "'r vendor \<Rightarrow> host_op list \<Rightarrow> 'r marantz \<Rightarrow> exn list \<times> 'r marantz" where
  "run v [] s = ([], s)"
| "run v (op # ops) s =
     (if service_allowed s op then
        (case dispatch v op s of (res, s') \<Rightarrow>
           (case run v ops s' of (errs, t) \<Rightarrow> ((case res of Inl e \<Rightarrow> [e] | Inr _ \<Rightarrow> []) @ errs, t)))
      else run v ops s)"

inductive host_steps :: "'r vendor \<Rightarrow> 'r marantz \<Rightarrow> host_op list \<Rightarrow> 'r marantz \<Rightarrow> bool"
  for v where
  nil: "host_steps v s [] s"
| cons: "service_allowed s op \<Longrightarrow> host_steps v (snd (dispatch v op s)) ops t \<Longrightarrow>
         host_steps v s (op # ops) t"

section \<open>Receivers and calls\<close>

definition int_or_none :: "pyval \<Rightarrow> bool" where
  "int_or_none x \<longleftrightarrow> (case x of PyStr _ \<Rightarrow> False | _ \<Rightarrow> True)"

definition answering :: "'r vendor \<Rightarrow> bool" where
  "answering v \<longleftrightarrow>
     (\<forall>cmd r. case fst (v (query cmd) r) of Inl _ \<Rightarrow> False
                | Inr x \<Rightarrow> (cmd = MainVolume \<longrightarrow> int_or_none x))"

definition reliable :: "'r vendor \<Rightarrow> bool" where
  "reliable v \<longleftrightarrow>
     (\<forall>c r. case fst (v c r) of Inl _ \<Rightarrow> False | Inr x \<Rightarrow> (c = query MainVolume \<longrightarrow> int_or_none x))"

definition call_ok :: "call \<Rightarrow> bool" where
  "call_ok c \<longleftrightarrow> (case c of Call cmd sep code \<Rightarrow> sep = '':'' \<and> (case code of PyInt _ \<Rightarrow> False | _ \<Rightarrow> True))"

definition refreshed :: "'r marantz \<Rightarrow> bool" where
  "refreshed s \<longleftrightarrow> mz_state s \<noteq> None \<and> mz_mute s \<noteq> None \<and> mz_sound_mode s \<noteq> None"

section \<open>Lemmas\<close>

inductive_simps host_steps_nil: "host_steps v s [] t"
inductive_simps host_steps_Cons: "host_steps v s (op # ops) t"

lemma service_allowed_state: "service_allowed s = service_allowed t"
  by (simp add: fun_eq_iff service_allowed_def supported_features_def)

lemma snd_run_Cons [simp]:
  "snd (run v (op # ops) s) = snd (run v ops (if service_allowed s op then snd (dispatch v op s) else s))"
  by (simp split: prod.splits)

lemma run_append:
  "run v (xs @ ys) s = (case run v xs s of (l1, t) \<Rightarrow> case run v ys t of (l2, u) \<Rightarrow> (l1 @ l2, u))"
  by (induction xs arbitrary: s) (auto split: prod.splits)

lemma snd_run_append [simp]: "snd (run v (xs @ ys) s) = snd (run v ys (snd (run v xs s)))"
  by (simp add: run_append split: prod.splits)

lemma run_config: "config_of (snd (run v ops s)) = config_of s"
  by (induction ops arbitrary: s) (simp_all add: dispatch_config del: run.simps(2))

lemma call_ok_query [simp]: "call_ok (query c)"
  by (simp add: call_ok_def query_def)

lemma answering_query:
  assumes "answering v"
  obtains x r' where "v (query c) r = (Inr x, r')" and "c = MainVolume \<Longrightarrow> int_or_none x"
proof -
  have "case fst (v (query c) r) of Inl _ \<Rightarrow> False | Inr x \<Rightarrow> (c = MainVolume \<longrightarrow> int_or_none x)"
    using assms by (simp add: answering_def)
  then show ?thesis using that by (cases "v (query c) r") (auto split: sum.splits)
qed

lemma update_refreshed:
  assumes "answering v" and "mz_min_volume s \<noteq> mz_max_volume s"
  shows "fst (update v s) = Inr () \<and> refreshed (snd (update v s))"
proof -
  obtain p r1 where 1: "v (query MainPower) (mz_receiver s) = (Inr p, r1)"
    using answering_query [OF assms(1), where c = MainPower and r = "mz_receiver s"] by blast
  obtain m r2 where 2: "v (query MainMute) r1 = (Inr m, r2)"
    using answering_query [OF assms(1), where c = MainMute and r = r1] by blast
  obtain x r3 where 3: "v (query MainVolume) r2 = (Inr x, r3)" and x: "int_or_none x"
    using answering_query [OF assms(1), where c = MainVolume and r = r2] by blast
  obtain src r4 where 4: "v (query MainSource) r3 = (Inr src, r4)"
    using answering_query [OF assms(1), where c = MainSource and r = r3] by blast
  obtain sm r5 where 5: "v (query MainSoundMode) r4 = (Inr sm, r5)"
    using answering_query [OF assms(1), where c = MainSoundMode and r = r4] by blast
  from x consider "x = PyNone" | d where "x = PyInt d"
    by (cases x) (auto simp: int_or_none_def)
  then show ?thesis
    by cases (simp_all add: 1 2 3 4 5 assms(2) refreshed_def update_def receiver_call_def calc_volume_def)
qed

lemma reliable_answering:
  assumes "reliable v"
  shows "answering v"
  unfolding answering_def
proof (intro allI)
  fix cmd r
  have "case fst (v (query cmd) r) of Inl _ \<Rightarrow> False
          | Inr x \<Rightarrow> (query cmd = query MainVolume \<longrightarrow> int_or_none x)"
    using assms by (simp add: reliable_def)
  moreover have "query cmd = query MainVolume \<longleftrightarrow> cmd = MainVolume" by (simp add: query_def)
  ultimately show "case fst (v (query cmd) r) of Inl _ \<Rightarrow> False
          | Inr x \<Rightarrow> (cmd = MainVolume \<longrightarrow> int_or_none x)"
    by (simp split: sum.splits)
qed

lemma reliable_call:
  assumes "reliable v"
  obtains x r' where "v c r = (Inr x, r')"
proof -
  have "case fst (v c r) of Inl _ \<Rightarrow> False | Inr x \<Rightarrow> (c = query MainVolume \<longrightarrow> int_or_none x)"
    using assms by (simp add: reliable_def)
  then show ?thesis using that by (cases "v c r") (auto split: sum.splits)
qed

lemma send_reliable:
  assumes "reliable v"
  shows "fst (send v c s) = Inr ()"
proof -
  obtain x r' where "v c (mz_receiver s) = (Inr x, r')"
    using reliable_call [OF assms] by blast
  then show ?thesis by (simp add: send_def receiver_call_def)
qed

lemma dispatch_reliable:
  assumes "reliable v" and "mz_min_volume s \<noteq> mz_max_volume s" and "service_allowed s op"
  shows "fst (dispatch v op s) = Inr ()"
proof (cases op)
  case Update
  then show ?thesis using update_refreshed [OF reliable_answering [OF assms(1)] assms(2)] by simp
next
  case MediaPlay
  then show ?thesis
    using assms(3) by (simp add: service_allowed_def has_feature_def supported_features_def SUPPORT_MARANTZ_def)
qed (simp_all add: command_defs send_reliable [OF assms(1)])

lemma update_keeps_refreshed: "refreshed s \<Longrightarrow> refreshed (snd (update v s))"
  by (auto simp: refreshed_def update_def receiver_call_def split: prod.splits sum.splits if_splits)

lemma dispatch_keeps_refreshed: "refreshed s \<Longrightarrow> refreshed (snd (dispatch v op s))"
proof (cases "op = Update")
  case True
  then show "refreshed s \<Longrightarrow> ?thesis" by (simp add: update_keeps_refreshed)
next
  case False
  from dispatch_frame [OF False]
  obtain r where "snd (dispatch v op s) = s\<lparr>mz_receiver := r\<rparr>" ..
  then show "refreshed s \<Longrightarrow> ?thesis" by (simp add: refreshed_def)
qed

lemma run_keeps_refreshed: "refreshed s \<Longrightarrow> refreshed (snd (run v ops s))"
  by (induction ops arbitrary: s) (simp_all add: dispatch_keeps_refreshed del: run.simps(2))

lemma host_steps_snoc:
  "host_steps v s ops t \<Longrightarrow> service_allowed t op \<Longrightarrow> host_steps v s (ops @ [op]) (snd (dispatch v op t))"
  by (induction rule: host_steps.induct) (auto intro: host_steps.intros)

lemma host_steps_reachable: "host_steps v s ops t \<Longrightarrow> reachable v s0 s \<Longrightarrow> reachable v s0 t"
  by (induction rule: host_steps.induct) (auto intro: reachable.step host_step.service)

lemma reachable_host_steps: "reachable v s0 t \<longleftrightarrow> (\<exists>ops. host_steps v s0 ops t)"
proof
  assume "reachable v s0 t"
  then show "\<exists>ops. host_steps v s0 ops t"
    by (induction rule: reachable.induct) (auto elim!: host_stepE intro: host_steps_snoc host_steps.nil)
next
  assume "\<exists>ops. host_steps v s0 ops t"
  then show "reachable v s0 t" using host_steps_reachable reachable.start by blast
qed

lemma host_steps_run:
  "host_steps v s ops t \<longleftrightarrow> list_all (service_allowed s) ops \<and> t = snd (run v ops s)"
proof (induction ops arbitrary: s)
  case Nil
  show ?case by (auto simp: host_steps_nil)
next
  case (Cons op ops)
  let ?s' = "snd (dispatch v op s)"
  have eq: "service_allowed ?s' = service_allowed s" by (rule service_allowed_state)
  show ?case by (auto simp: host_steps_Cons Cons.IH eq simp del: run.simps(2))
qed

lemma dispatch_logged_calls:
  "\<exists>cs. calls_of (snd (dispatch (logged v) op s)) = calls_of s @ cs \<and> list_all call_ok cs"
proof (cases "op = Update")
  case True
  then show ?thesis
    by (auto simp: update_def receiver_call_def logged_def calls_of_def split: prod.splits sum.splits)
next
  case False
  then show ?thesis
    by (cases op) (simp_all add: command_defs logged_def calls_of_def
        call_ok_def write_code_def pyval_of_def split: prod.splits option.splits)
qed

text \<open>The host's runs and the functional \<open>run\<close> agree: a state is reachable from
  the added entity exactly when some list of services the host lets through leads to it.\<close>

lemma reachable_iff_run:
  "reachable v s0 t \<longleftrightarrow> (\<exists>ops. list_all (service_allowed s0) ops \<and> t = snd (run v ops s0))"
  by (simp add: reachable_host_steps host_steps_run)

text \<open>C22. Where exceptions come from: with a receiver that answers every call and reports
  an integer or no volume, and a non-empty volume range, no service the host lets through
  raises, so the worker logs nothing on any run.\<close>

theorem run_reliable_no_errors:
  assumes "reliable v" and "mz_min_volume s \<noteq> mz_max_volume s"
  shows "fst (run v ops s) = []"
  using assms(2)
proof (induction ops arbitrary: s)
  case (Cons op ops)
  show ?case
  proof (cases "service_allowed s op")
    case True
    obtain t where d: "dispatch v op s = (Inr (), t)"
      using dispatch_reliable [OF assms(1) Cons.prems True] by (cases "dispatch v op s") auto
    have "mz_min_volume t \<noteq> mz_max_volume t"
      using dispatch_config [of v op s] d Cons.prems by (simp add: config_of_def)
    then show ?thesis using Cons.IH d True by (simp split: prod.splits)
  next
    case False
    then show ?thesis using Cons.IH Cons.prems by simp
  qed
qed simp

theorem run_reliable_no_errors_witness:
  "reliable (table_vendor demo_replies) \<and>
   mz_min_volume (demo_entity ([] :: call list)) \<noteq> mz_max_volume (demo_entity ([] :: call list)) \<and>
   fst (run (table_vendor demo_replies)
     [Update, SetVolumeLevel (1/2), SelectSource ''Phono'', MediaPlay, Update] (demo_entity [])) = []"
proof -
  have r: "reliable (table_vendor demo_replies)"
    by (simp add: reliable_def table_vendor_def demo_replies_def int_or_none_def query_def
        split: call.splits command.splits)
  have m: "mz_min_volume (demo_entity ([] :: call list)) \<noteq> mz_max_volume (demo_entity ([] :: call list))"
    by (simp add: demo_defs)
  show ?thesis using run_reliable_no_errors [OF r m] r m by blast
qed

text \<open>C34. Liveness of the refresh: with a receiver that answers every query, an integer or
  no volume, and a non-empty volume range, every run of services that contains a refresh
  ends with power state, mute flag and sound mode defined, whatever came before or after
  it.\<close>

theorem run_refresh_defines_state:
  assumes "answering v" and "mz_min_volume s \<noteq> mz_max_volume s" and "Update \<in> set ops"
  shows "state (snd (run v ops s)) \<noteq> None \<and> is_volume_muted (snd (run v ops s)) \<noteq> None \<and>
         (\<exists>m. sound_mode (snd (run v ops s)) = Inr m)"
proof -
  obtain xs ys where ops: "ops = xs @ Update # ys" using split_list [OF assms(3)] by blast
  let ?t = "snd (run v xs s)"
  have "config_of ?t = config_of s" by (rule run_config)
  then have "mz_min_volume ?t \<noteq> mz_max_volume ?t" using assms(2) by (simp add: config_of_def)
  then have "refreshed (snd (update v ?t))" using update_refreshed [OF assms(1)] by blast
  then have "refreshed (snd (run v ys (snd (update v ?t))))" by (rule run_keeps_refreshed)
  moreover have "snd (run v ops s) = snd (run v ys (snd (update v ?t)))"
    using ops by (simp add: service_allowed_def del: run.simps(2))
  ultimately show ?thesis by (auto simp: refreshed_def state_def is_volume_muted_def sound_mode_def)
qed

theorem run_refresh_defines_state_witness:
  "answering (table_vendor demo_replies) \<and>
   mz_min_volume (demo_entity ([] :: call list)) \<noteq> mz_max_volume (demo_entity ([] :: call list)) \<and>
   Update \<in> set [TurnOn, Update, VolumeUp] \<and>
   state (snd (run (table_vendor demo_replies) [TurnOn, Update, VolumeUp] (demo_entity []))) \<noteq> None \<and>
   is_volume_muted (snd (run (table_vendor demo_replies) [TurnOn, Update, VolumeUp] (demo_entity []))) \<noteq> None \<and>
   (\<exists>m. sound_mode (snd (run (table_vendor demo_replies) [TurnOn, Update, VolumeUp] (demo_entity []))) = Inr m)"
proof -
  have a: "answering (table_vendor demo_replies)"
    by (simp add: answering_def demo_replies_def int_or_none_def split: command.splits)
  have m: "mz_min_volume (demo_entity ([] :: call list)) \<noteq> mz_max_volume (demo_entity ([] :: call list))"
    by (simp add: demo_defs)
  have u: "Update \<in> set [TurnOn, Update, VolumeUp]" by simp
  show ?thesis using run_refresh_defines_state [OF a m u] a m u by blast
qed

text \<open>C35. The adapter keeps to the library's interface: on every run of services, each
  call it makes is \<^verbatim>\<open>main_x(':', code)\<close> with a \<^verbatim>\<open>str\<close> or \<^verbatim>\<open>None\<close> code, never
  an \<^verbatim>\<open>int\<close>, whatever the library answers or raises.\<close>

theorem run_calls_well_typed:
  "\<exists>cs. calls_of (snd (run (logged v) ops s)) = calls_of s @ cs \<and> list_all call_ok cs"
proof (induction ops arbitrary: s)
  case (Cons op ops)
  show ?case
  proof (cases "service_allowed s op")
    case True
    obtain cs1 where 1: "calls_of (snd (dispatch (logged v) op s)) = calls_of s @ cs1" "list_all call_ok cs1"
      using dispatch_logged_calls by blast
    obtain cs2 where 2: "calls_of (snd (run (logged v) ops (snd (dispatch (logged v) op s)))) =
        calls_of (snd (dispatch (logged v) op s)) @ cs2" "list_all call_ok cs2"
      using Cons.IH by blast
    show ?thesis using True 1 2 by (simp del: run.simps(2))
  next
    case False
    then show ?thesis using Cons.IH by (simp del: run.simps(2))
  qed
qed simp

end
