(* ===== verification/Config.thy ===== *)
theory Config
  imports Marantz
begin

text \<open>
  The platform configuration of \<^verbatim>\<open>media_player.py\<close>: the constants (lines 22 to 35),
  the schema \<^verbatim>\<open>PLATFORM_SCHEMA\<close> (lines 37 to 45) that validates the YAML mapping and
  fills in the defaults, and \<^verbatim>\<open>setup_platform\<close> (lines 48 to 59) that opens the
  vendor library on the serial port and adds one entity, refreshed before it is added.
  The validators the schema names come from Home Assistant and voluptuous and are
  modelled from their documented behaviour: \<^verbatim>\<open>cv.string\<close> turns any scalar but
  \<^verbatim>\<open>None\<close> into its \<^verbatim>\<open>str\<close>, the type \<^verbatim>\<open>int\<close> accepts Python ints (a
  \<^verbatim>\<open>bool\<close> is one), a dict schema \<^verbatim>\<open>{cv.string: cv.string}\<close> validates every key and
  value and builds a new dict in order. The keys of the host's base schema
  (\<^verbatim>\<open>platform\<close>, \<^verbatim>\<open>scan_interval\<close>) are not modelled; other keys are let through.
\<close>

section \<open>Configuration values\<close>

text \<open>A value of the loaded YAML mapping.\<close>

datatype cval = CStr string | CInt int | CBool bool | CNone | CList "cval list" | CMap "(cval \<times> cval) list"

definition DEFAULT_NAME :: string where "DEFAULT_NAME = ''Marantz Receiver''"
definition DEFAULT_MIN_VOLUME :: int where "DEFAULT_MIN_VOLUME = -71"
definition DEFAULT_MAX_VOLUME :: int where "DEFAULT_MAX_VOLUME = -1"

definition CONF_SERIAL_PORT :: string where "CONF_SERIAL_PORT = ''serial_port''"
definition CONF_NAME :: string where "CONF_NAME = ''name''"
definition CONF_MIN_VOLUME :: string where "CONF_MIN_VOLUME = ''min_volume''"
definition CONF_MAX_VOLUME :: string where "CONF_MAX_VOLUME = ''max_volume''"
definition CONF_SOURCE_DICT :: string where "CONF_SOURCE_DICT = ''sources''"
definition CONF_SOUNDMODE_DICT :: string where "CONF_SOUNDMODE_DICT = ''soundmode''"
definition CONF_UNIQUE_ID :: string where "CONF_UNIQUE_ID = ''unique_id''"

section \<open>Validators\<close>

text \<open>\<^verbatim>\<open>cv.string\<close>; \<open>None\<close> is \<^verbatim>\<open>vol.Invalid\<close>.\<close>

fun cv_string :: "cval \<Rightarrow> string option" where
  "cv_string (CStr s) = Some s"
| "cv_string (CInt i) = Some (str_of_int i)"
| "cv_string (CBool b) = Some (if b then ''True'' else ''False'')"
| "cv_string CNone = None"
| "cv_string (CList xs) = None"
| "cv_string (CMap ps) = None"

text \<open>The type \<^verbatim>\<open>int\<close> as a voluptuous validator: an instance check, so \<^verbatim>\<open>True\<close>
  passes and computes as \<open>1\<close>.\<close>

fun validate_int :: "cval \<Rightarrow> int option" where
  "validate_int (CInt i) = Some i"
| "validate_int (CBool b) = Some (if b then 1 else 0)"
| "validate_int (CStr s) = None"
| "validate_int CNone = None"
| "validate_int (CList xs) = None"
| "validate_int (CMap ps) = None"

text \<open>\<^verbatim>\<open>{cv.string: cv.string}\<close>: keys and values coerced, assigned in order.\<close>

fun validate_str_dict :: "cval \<Rightarrow> (string, string) pydict option" where
  "validate_str_dict (CMap ps) =
     map_option dict_of_pairs
       (those (map (\<lambda>(k, x). case (cv_string k, cv_string x) of
                               (Some k', Some x') \<Rightarrow> Some (k', x') | _ \<Rightarrow> None) ps))"
| "validate_str_dict (CStr s) = None"
| "validate_str_dict (CInt i) = None"
| "validate_str_dict (CBool b) = None"
| "validate_str_dict CNone = None"
| "validate_str_dict (CList xs) = None"

section \<open>The schema\<close>

record marantz_config =
  cfg_serial_port :: string
  cfg_name :: string
  cfg_min_volume :: int
  cfg_max_volume :: int
  cfg_sources :: "(string, string) pydict"
  cfg_soundmode :: "(string, string) pydict"
  cfg_unique_id :: string

text \<open>\<^verbatim>\<open>vol.Required(key): valid\<close> and \<^verbatim>\<open>vol.Optional(key, default=d): valid\<close>.\<close>

definition required_field :: "(cval \<Rightarrow> 'a option) \<Rightarrow> (string, cval) pydict \<Rightarrow> string \<Rightarrow> 'a option" where
  "required_field valid data key = (case dict_get data key of None \<Rightarrow> None | Some x \<Rightarrow> valid x)"

definition optional_field ::
  "(cval \<Rightarrow> 'a option) \<Rightarrow> 'a \<Rightarrow> (string, cval) pydict \<Rightarrow> string \<Rightarrow> 'a option" where
  "optional_field valid dflt data key =
     (case dict_get data key of None \<Rightarrow> Some dflt | Some x \<Rightarrow> valid x)"

text \<open>The validated configuration, or the keys that failed (\<^verbatim>\<open>MultipleInvalid\<close>), in
  the schema's order. No check relates two fields.\<close>

definition PLATFORM_SCHEMA :: "(string, cval) pydict \<Rightarrow> string list + marantz_config" where
  "PLATFORM_SCHEMA data =
     (let port = required_field cv_string data CONF_SERIAL_PORT;
          nm = optional_field cv_string DEFAULT_NAME data CONF_NAME;
          mn = optional_field validate_int DEFAULT_MIN_VOLUME data CONF_MIN_VOLUME;
          mx = optional_field validate_int DEFAULT_MAX_VOLUME data CONF_MAX_VOLUME;
          srcs = optional_field validate_str_dict [] data CONF_SOURCE_DICT;
          modes = optional_field validate_str_dict [] data CONF_SOUNDMODE_DICT;
          uid = optional_field cv_string '''' data CONF_UNIQUE_ID
      in case (port, nm, mn, mx, srcs, modes, uid) of
           (Some p, Some n, Some a, Some b, Some s, Some m, Some u) \<Rightarrow>
             Inr \<lparr>cfg_serial_port = p, cfg_name = n, cfg_min_volume = a, cfg_max_volume = b,
                  cfg_sources = s, cfg_soundmode = m, cfg_unique_id = u\<rparr>
         | _ \<Rightarrow>
             Inl (map snd (filter fst
               [(port = None, CONF_SERIAL_PORT), (nm = None, CONF_NAME),
                (mn = None, CONF_MIN_VOLUME), (mx = None, CONF_MAX_VOLUME),
                (srcs = None, CONF_SOURCE_DICT), (modes = None, CONF_SOUNDMODE_DICT),
                (uid = None, CONF_UNIQUE_ID)])))"

section \<open>Setting up the platform\<close>

text \<open>\<^verbatim>\<open>add_devices(entities, True)\<close>: the host refreshes each entity before adding it
  and drops one whose refresh raises.\<close>

definition add_devices :: "'r vendor \<Rightarrow> 'r marantz list \<Rightarrow> 'r marantz list" where
  "add_devices v es =
     concat (map (\<lambda>e. case update v e of (Inl _, _) \<Rightarrow> [] | (Inr _, e') \<Rightarrow> [e']) es)"

text \<open>\<^verbatim>\<open>MarantzReceiver(port)\<close>, the vendor library's constructor, is the parameter
  \<open>open_receiver\<close>; it may raise.\<close>

definition setup_platform ::
  "(string \<Rightarrow> exn + 'r) \<Rightarrow> 'r vendor \<Rightarrow> marantz_config \<Rightarrow> exn + 'r marantz list" where
  "setup_platform open_receiver v config =
     (case open_receiver (cfg_serial_port config) of
        Inl e \<Rightarrow> Inl e
      | Inr receiver \<Rightarrow>
          Inr (add_devices v
            [marantz_init (cfg_name config) receiver (cfg_min_volume config) (cfg_max_volume config)
               (cfg_sources config) (cfg_soundmode config) (cfg_unique_id config)]))"

text \<open>The configuration the demo entity of \<open>Marantz\<close> is built from.\<close>

definition demo_config :: marantz_config where
  "demo_config = \<lparr>cfg_serial_port = ''/dev/ttyUSB0'', cfg_name = DEFAULT_NAME,
     cfg_min_volume = DEFAULT_MIN_VOLUME, cfg_max_volume = DEFAULT_MAX_VOLUME,
     cfg_sources = [(''11'', ''CD''), (''12'', ''Tuner'')],
     cfg_soundmode = [(''3'', ''Stereo''), (''4'', ''Direct'')], cfg_unique_id = []\<rparr>"

lemmas conf_keys = CONF_SERIAL_PORT_def CONF_NAME_def CONF_MIN_VOLUME_def CONF_MAX_VOLUME_def
  CONF_SOURCE_DICT_def CONF_SOUNDMODE_DICT_def CONF_UNIQUE_ID_def

section \<open>Lemmas\<close>

text \<open>C30. A configuration that sets \<^verbatim>\<open>serial_port\<close> to a string and none of the optional
  keys validates to the defaults of lines 22 to 24 and 39 to 44 (spec.md section 3): name
  \<^verbatim>\<open>'Marantz Receiver'\<close>, -71 and -1 dB, no sources, no sound modes, empty unique id.
  Keys the schema does not name (the host's base keys) are let through.\<close>

theorem schema_defaults:
  assumes "dict_get data CONF_SERIAL_PORT = Some (CStr port)"
    and "dict_get data CONF_NAME = None" and "dict_get data CONF_MIN_VOLUME = None"
    and "dict_get data CONF_MAX_VOLUME = None" and "dict_get data CONF_SOURCE_DICT = None"
    and "dict_get data CONF_SOUNDMODE_DICT = None" and "dict_get data CONF_UNIQUE_ID = None"
  shows "PLATFORM_SCHEMA data =
     Inr \<lparr>cfg_serial_port = port, cfg_name = ''Marantz Receiver'', cfg_min_volume = -71,
          cfg_max_volume = -1, cfg_sources = [], cfg_soundmode = [], cfg_unique_id = ''''\<rparr>"
  using assms
  by (simp add: PLATFORM_SCHEMA_def required_field_def optional_field_def
      DEFAULT_NAME_def DEFAULT_MIN_VOLUME_def DEFAULT_MAX_VOLUME_def)

theorem schema_defaults_witness:
  "PLATFORM_SCHEMA [(CONF_SERIAL_PORT, CStr ''/dev/ttyUSB0''), (''scan_interval'', CInt 30)] =
     Inr \<lparr>cfg_serial_port = ''/dev/ttyUSB0'', cfg_name = ''Marantz Receiver'', cfg_min_volume = -71,
          cfg_max_volume = -1, cfg_sources = [], cfg_soundmode = [], cfg_unique_id = ''''\<rparr>"
  by (rule schema_defaults) (simp_all add: dict_get_def conf_keys)

text \<open>C31. A configuration without \<^verbatim>\<open>serial_port\<close> is rejected, and the error names
  \<^verbatim>\<open>serial_port\<close>.\<close>

theorem schema_missing_port:
  "dict_get data CONF_SERIAL_PORT = None \<Longrightarrow>
   \<exists>errs. PLATFORM_SCHEMA data = Inl errs \<and> CONF_SERIAL_PORT \<in> set errs"
  by (simp add: PLATFORM_SCHEMA_def required_field_def Let_def split: option.splits)

theorem schema_missing_port_witness:
  "\<exists>errs. PLATFORM_SCHEMA [(CONF_NAME, CStr ''Amp'')] = Inl errs \<and> CONF_SERIAL_PORT \<in> set errs"
  by (rule schema_missing_port) (simp add: dict_get_def conf_keys)

text \<open>C33. Line 42 validates the source mapping with \<^verbatim>\<open>{cv.string: cv.string}\<close>,
  which coerces the keys: an integer key and the string of its digits collide, and the
  configuration keeps one source, under the string key, with the later display name.\<close>

theorem schema_source_key_collision:
  "PLATFORM_SCHEMA [(CONF_SERIAL_PORT, CStr port),
       (CONF_SOURCE_DICT, CMap [(CInt i, CStr a), (CStr (str_of_int i), CStr b)])] =
     Inr \<lparr>cfg_serial_port = port, cfg_name = DEFAULT_NAME, cfg_min_volume = DEFAULT_MIN_VOLUME,
          cfg_max_volume = DEFAULT_MAX_VOLUME, cfg_sources = [(str_of_int i, b)], cfg_soundmode = [],
          cfg_unique_id = ''''\<rparr>"
  by (simp add: PLATFORM_SCHEMA_def required_field_def optional_field_def dict_get_def conf_keys
      dict_of_pairs_def dict_set_def)

lemma schema_volume_range:
  "PLATFORM_SCHEMA [(CONF_SERIAL_PORT, CStr port), (CONF_MIN_VOLUME, CInt a), (CONF_MAX_VOLUME, CInt b)] =
     Inr \<lparr>cfg_serial_port = port, cfg_name = DEFAULT_NAME, cfg_min_volume = a,
          cfg_max_volume = b, cfg_sources = [], cfg_soundmode = [], cfg_unique_id = ''''\<rparr>"
  by (simp add: PLATFORM_SCHEMA_def required_field_def optional_field_def dict_get_def conf_keys)

lemma setup_platform_single:
  "setup_platform open_receiver v config = Inr es \<Longrightarrow>
   \<exists>receiver. open_receiver (cfg_serial_port config) = Inr receiver \<and>
     es = add_devices v [marantz_init (cfg_name config) receiver (cfg_min_volume config)
       (cfg_max_volume config) (cfg_sources config) (cfg_soundmode config) (cfg_unique_id config)]"
  by (simp add: setup_platform_def split: sum.splits)

lemma add_devices_single:
  "add_devices v [e] = (if fst (update v e) = Inr () then [snd (update v e)] else [])"
  by (simp add: add_devices_def split: prod.splits sum.splits)


lemma demo_setup:
  "setup_platform (\<lambda>port. Inr []) (table_vendor demo_replies) demo_config =
   Inr [snd (update (table_vendor demo_replies) (demo_entity []))]"
proof -
  have "fst (update (table_vendor demo_replies) (demo_entity [])) = Inr ()"
    by (simp add: update_def receiver_call_def demo_defs calc_volume_def)
  moreover have "marantz_init DEFAULT_NAME ([] :: call list) DEFAULT_MIN_VOLUME DEFAULT_MAX_VOLUME
      [(''11'', ''CD''), (''12'', ''Tuner'')] [(''3'', ''Stereo''), (''4'', ''Direct'')] [] =
    demo_entity []"
    by (simp add: demo_entity_def DEFAULT_NAME_def DEFAULT_MIN_VOLUME_def DEFAULT_MAX_VOLUME_def)
  ultimately show ?thesis
    by (simp add: setup_platform_def demo_config_def add_devices_single)
qed

end
