(* ===== verification/Spec2Isabelle.thy ===== *)
theory Spec2Isabelle
  imports Run Config
begin

text \<open>
  \<^bold>\<open>A verification development for the Marantz RS-232 media player platform.\<close>

  The program is one Home Assistant platform module,
  \<^verbatim>\<open>src/custom_components/marantzusb/media_player.py\<close>. It has four parts. The
  \<^emph>\<open>configuration\<close> is the constants, \<^verbatim>\<open>PLATFORM_SCHEMA\<close> and
  \<^verbatim>\<open>setup_platform\<close>. The \<^emph>\<open>entity\<close> is the class \<^verbatim>\<open>Marantz\<close>: its
  constructor, the refresh \<^verbatim>\<open>update\<close>, the commands and the properties. The
  \<^emph>\<open>volume conversion\<close> is \<^verbatim>\<open>calc_volume\<close> and \<^verbatim>\<open>calc_db\<close>. The \<^emph>\<open>vendor
  library\<close> \<^verbatim>\<open>marantz_receiver.MarantzReceiver\<close> is called with the commands
  \<^verbatim>\<open>main_power\<close>, \<^verbatim>\<open>main_mute\<close>, \<^verbatim>\<open>main_volume\<close>, \<^verbatim>\<open>main_source\<close>,
  \<^verbatim>\<open>main_sound_mode\<close>, each taking a separator \<^verbatim>\<open>':'\<close> and a code (\<^verbatim>\<open>'?'\<close>
  queries). Home Assistant validates the YAML with the schema, calls
  \<^verbatim>\<open>setup_platform\<close>, refreshes the new entity before adding it, and then calls
  the entity's services and \<^verbatim>\<open>update\<close> one at a time.

  \<^bold>\<open>Theories.\<close>
  \<^item> \<open>Prelude\<close> holds the effect type \<open>('s, 'a) py = 's \<Rightarrow> (exn + 'a) \<times> 's\<close>. A
    method is a state transformer that may raise. An exception keeps the attribute
    writes done before it, as Python does. The theory also holds Python dicts as
    association lists (\<open>dict_set\<close> updates in place or appends; \<open>dict_of_pairs\<close>
    is a dict comprehension, where the last value of a key wins), \<open>round\<close> as
    \<open>py_round\<close> (ties to even), and \<open>str(int)\<close> as \<open>str_of_int\<close> with its
    inverse \<open>parse_int\<close>.
  \<^item> \<open>Volume\<close> models \<^verbatim>\<open>calc_volume\<close> (lines 82 to 89) and \<^verbatim>\<open>calc_db\<close>
    (lines 91 to 98) over the configured \<open>min\<close> and \<open>max\<close>. \<open>calc_volume\<close> raises
    \<^verbatim>\<open>ZeroDivisionError\<close> when \<open>min = max\<close>, and \<^verbatim>\<open>TypeError\<close> for a reply
    that is not an int.
  \<^item> \<open>Receiver\<close> is the interface to the vendor library. A call is
    \<open>Call command sep code\<close>. A library is a parameter \<open>'r vendor\<close>: a function
    from a call and the library's state \<open>'r\<close> to a reply, or an exception, and a new
    state. The theory also holds the test doubles used by the witnesses:
    \<open>table_vendor\<close> (fixed replies, a call log), \<open>register_vendor\<close> (stores each
    written code and answers queries with it) and \<open>logged\<close>.
  \<^item> \<open>Marantz\<close> holds the class as the record \<open>'r marantz\<close>, with one field per
    attribute. The library handle is the field \<open>mz_receiver\<close>. \<^verbatim>\<open>_sound_mode\<close>
    is \<open>string option option\<close>, where the outer \<open>None\<close> means not yet assigned.
    The constructor is \<open>marantz_init\<close> (lines 65 to 80) and the refresh is
    \<open>update\<close> (lines 110 to 129). The commands are \<open>turn_off\<close>, \<open>turn_on\<close>,
    \<open>volume_up\<close>, \<open>volume_down\<close>, \<open>set_volume_level\<close>, \<open>select_source\<close>,
    \<open>select_sound_mode\<close> and \<open>mute_volume\<close> (lines 146 to 180). The properties
    (lines 100 to 108 and 131 to 204) are plain functions; \<open>sound_mode\<close> raises
    \<^verbatim>\<open>AttributeError\<close> before the first refresh. The abstract contract of the
    refresh is \<open>refresh_spec\<close>, a function from the five replies to the visible
    \<open>view\<close>. The lemmas of this theory are about the constructor and the refresh.
  \<^item> \<open>Commands\<close> holds the lemmas on the commands and properties: the reverse tables
    round-trip a name to its code, the name lists are sorted, and the volume code is
    formatted as the code does it.
  \<^item> \<open>Host\<close> models the calling side, from Home Assistant's documented behaviour:
    the feature flags, \<open>supported_features\<close>, the dispatch of a service call to
    a method (\<open>dispatch\<close>), and the check of the required feature
    (\<open>service_allowed\<close>). The host's run is the step relation \<open>host_step\<close> and
    its closure \<open>reachable\<close>.
  \<^item> \<open>Run\<close> models the host's worker, which runs services one at a time (spec.md
    section 5). \<open>run\<close> executes a list of service calls. It skips the ones the
    host rejects, logs each exception and keeps the state the method left.
    \<open>host_steps\<close> is the same run as an inductive relation over the list.
  \<^item> \<open>Config\<close> holds the voluptuous validators (\<open>cv_string\<close>, \<open>validate_int\<close>,
    \<open>validate_str_dict\<close>), \<open>PLATFORM_SCHEMA\<close> (lines 37 to 45),
    \<open>add_devices\<close> with the refresh before adding, and \<open>setup_platform\<close>
    (lines 48 to 59). The library's constructor is a parameter that may raise.
  \<^item> This theory states the properties that span the parts: the entity that
    \<open>setup_platform\<close> adds, as the host runs it, and commands followed by a
    refresh.

  \<^bold>\<open>What the lemmas show.\<close>
  \<^item> The refresh refines its contract \<open>refresh_spec\<close> (C1).
  \<^item> Each command sends exactly the one call the spec's table gives, and changes
    nothing but the library state (C3 to C5).
  \<^item> Every error path of the refresh leaves earlier writes in place (C6, C12 to C14).
  \<^item> \<open>calc_db\<close> and \<open>calc_volume\<close> are inverse on the configured range, with
    bounds and behaviour out of range (C7 to C9, C26 to C28).
  \<^item> The reverse tables round-trip a configured name to its code (C16 to C19).
  \<^item> The name lists are the sorted configured names (C20, C21).
  \<^item> Invariants over every reachable host state (C2, C10).
  \<^item> Runs of services:
    \<^item> reachability equals the functional run (lemma \<open>reachable_iff_run\<close>);
    \<^item> with a receiver that never raises and a non-empty range, no service raises
      (C22);
    \<^item> with an answering receiver, any run that contains a refresh defines the
      state (C34);
    \<^item> every library call is \<^verbatim>\<open>(':', str or None)\<close> (C35).
  \<^item> The schema's documented defaults, its error for a missing port, and the
    collision of coerced source keys (C30, C31, C33); the services the host admits
    (C29).
  \<^item> The mute codes of the command and of the refresh agree (C32).

  \<^bold>\<open>Modelling choices.\<close>
  \<^item> Python floats are reals. \<open>round\<close> is exact banker's rounding;
    IEEE rounding of the product in \<^verbatim>\<open>calc_db\<close> is not modelled.
  \<^item> Python ints are \<open>int\<close>.
  \<^item> The only loops in the program are the two dict comprehensions of
    \<^verbatim>\<open>__init__\<close> and \<^verbatim>\<open>sorted\<close>. The comprehension is a fold over the
    configured pairs (\<open>dict_of_pairs\<close>), and \<^verbatim>\<open>sorted\<close> is the library's
    \<open>sort\<close>. Both recurse on a finite list, so no fuel is needed. The one recursive function of the model, the
    decimal printer \<open>digits_of_nat\<close>, terminates by the measure of its argument.
    \<open>run\<close> recurses on the list of services.
  \<^item> Home Assistant's dispatcher and worker, its feature flags and the voluptuous validators
    are not under \<^verbatim>\<open>src/\<close>. They are modelled from their documentation and
    marked so in the manifest.
  \<^item> Not modelled:
    \<^item> the vendor library's serial protocol, which is not part of this
      repository and enters only through the \<open>vendor\<close> parameter;
    \<^item> logging (\<^verbatim>\<open>_LOGGER\<close> is created but never used);
    \<^item> the keys of Home Assistant's base schema (\<^verbatim>\<open>platform\<close>,
      \<^verbatim>\<open>scan_interval\<close>);
    \<^item> IEEE rounding of the float arithmetic in \<^verbatim>\<open>calc_volume\<close> and
      \<^verbatim>\<open>calc_db\<close>.
    Every other statement of \<^verbatim>\<open>media_player.py\<close> is modelled. The lines no
    definition translates are the module docstring, the imports and blank lines.
\<close>

lemma setup_added_entity:
  assumes "setup_platform open_receiver v config = Inr [s0]"
  shows "\<exists>e. fst (update v e) = Inr () \<and> s0 = snd (update v e) \<and> mappings_inv e \<and>
           mz_source e = None \<and> mz_sound_mode e = None \<and> mz_volume e = None \<and>
           mz_min_volume e = cfg_min_volume config \<and> mz_max_volume e = cfg_max_volume config"
proof -
  obtain receiver where a: "[s0] = add_devices v [marantz_init (cfg_name config) receiver
       (cfg_min_volume config) (cfg_max_volume config) (cfg_sources config) (cfg_soundmode config)
       (cfg_unique_id config)]"
    using setup_platform_single [OF assms] by blast
  define e where "e = marantz_init (cfg_name config) receiver (cfg_min_volume config)
       (cfg_max_volume config) (cfg_sources config) (cfg_soundmode config) (cfg_unique_id config)"
  have "[s0] = add_devices v [e]" using a by (simp add: e_def)
  then have "fst (update v e) = Inr () \<and> s0 = snd (update v e)"
    by (simp add: add_devices_single split: if_splits)
  moreover have "mappings_inv e" by (simp add: e_def mappings_inv_init)
  moreover have "mz_source e = None \<and> mz_sound_mode e = None \<and> mz_volume e = None \<and>
      mz_min_volume e = cfg_min_volume config \<and> mz_max_volume e = cfg_max_volume config"
    by (simp add: e_def marantz_init_def)
  ultimately show ?thesis by blast
qed

text \<open>C2. For the entity that \<^verbatim>\<open>setup_platform\<close> adds, in every state the host can
  reach by calling services on it: its configuration is that of the added entity,
  \<^verbatim>\<open>sound_mode\<close> is readable (no \<^verbatim>\<open>AttributeError\<close>) and names a configured sound
  mode or is \<^verbatim>\<open>None\<close>, and \<^verbatim>\<open>source\<close> is a member of \<^verbatim>\<open>source_list\<close> or \<^verbatim>\<open>None\<close>.\<close>

theorem added_entity_safe:
  assumes "setup_platform open_receiver v config = Inr [s0]" and "reachable v s0 s"
  shows "config_of s = config_of s0 \<and>
         (\<exists>m. sound_mode s = Inr m \<and> pred_option (\<lambda>n. n \<in> set (sound_mode_list s)) m) \<and>
         pred_option (\<lambda>n. n \<in> set (source_list s)) (source s)"
proof -
  obtain e where e: "fst (update v e) = Inr ()" "s0 = snd (update v e)" "mappings_inv e"
      "mz_source e = None" "mz_sound_mode e = None"
    using setup_added_entity [OF assms(1)] by blast
  have "entity_inv s0 s0" using update_entity_inv_start [OF e(1,3-5)] e(2) by simp
  with assms(2) have inv: "entity_inv s0 s" by (rule reachable_entity_inv)
  then have mi: "mappings_inv s" by (simp add: entity_inv_def)
  have sl: "source_list s = sorted_list_of_set (set (dict_values (mz_source_dict s)))"
    using mi sort_keys_reverse [of "\<lambda>x. x" "mz_source_dict s"]
    by (simp add: mappings_inv_def source_list_def)
  have sml: "sound_mode_list s = sorted_list_of_set (set (dict_values (mz_sound_mode_dict s)))"
    using mi sort_keys_reverse [of "\<lambda>x. ''0'' @ x" "mz_sound_mode_dict s"]
    by (simp add: mappings_inv_def sound_mode_list_def)
  show ?thesis
    using inv sl sml by (auto simp: entity_inv_def sound_mode_def source_def)
qed

text \<open>C10. If the configured range has \<open>min < max\<close> and the receiver reports volumes
  within it, \<^verbatim>\<open>volume_level\<close> stays in \<open>[0, 1]\<close> in every reachable state of the
  added entity.\<close>

theorem added_entity_volume_range:
  assumes "setup_platform open_receiver v config = Inr [s0]" and "reachable v s0 s"
    and "cfg_min_volume config < cfg_max_volume config"
    and "volume_replies_within v (cfg_min_volume config) (cfg_max_volume config)"
  shows "pred_option (\<lambda>f. 0 \<le> f \<and> f \<le> 1) (volume_level s)"
proof -
  obtain e where e: "fst (update v e) = Inr ()" "s0 = snd (update v e)" "mz_volume e = None"
      "mz_min_volume e = cfg_min_volume config" "mz_max_volume e = cfg_max_volume config"
    using setup_added_entity [OF assms(1)] by blast
  have "volume_in_range s0"
    using update_volume_in_range [of e v] e assms(3,4) by (simp add: volume_in_range_def)
  moreover have "config_of s0 = config_of e" using e(2) update_config by metis
  then have "mz_min_volume s0 = cfg_min_volume config" "mz_max_volume s0 = cfg_max_volume config"
    using e(4,5) by (simp_all add: config_of_def)
  ultimately have "volume_in_range s"
    using reachable_volume_in_range [OF assms(2)] assms(3,4) by simp
  then show ?thesis by (simp add: volume_in_range_def volume_level_def)
qed

text \<open>C11. After a refresh that reads the volume \<open>d \<ge> min\<close>, writing back the reported
  \<^verbatim>\<open>volume_level\<close> through \<^verbatim>\<open>set_volume_level\<close> sends the code \<^verbatim>\<open>'0'\<close> followed by
  \<open>str(d)\<close>: refresh and set are inverse on the integer dB scale.\<close>

theorem refresh_then_set_volume:
  assumes "v (query MainPower) (mz_receiver s) = (Inr p, r1)"
    and "v (query MainMute) r1 = (Inr m, r2)"
    and "v (query MainVolume) r2 = (Inr (PyInt d), r3)"
    and "mz_min_volume s \<noteq> mz_max_volume s" and "mz_min_volume s \<le> d"
  shows "\<exists>f. volume_level (snd (update v s)) = Some f \<and>
           set_volume_level v' f (snd (update v s)) =
           send v' (write_code MainVolume (''0'' @ str_of_int d)) (snd (update v s))"
proof -
  let ?f = "of_int \<bar>mz_min_volume s - d\<bar> / of_int \<bar>mz_min_volume s - mz_max_volume s\<bar> :: real"
  have vol: "mz_volume (snd (update v s)) = Some ?f"
    using assms(1-4) by (simp add: update_def receiver_call_def calc_volume_def split: prod.splits sum.splits)
  have "config_of (snd (update v s)) = config_of s" by (rule update_config)
  then have "mz_min_volume (snd (update v s)) = mz_min_volume s"
      "mz_max_volume (snd (update v s)) = mz_max_volume s"
    by (simp_all add: config_of_def)
  moreover have "calc_db (mz_min_volume s) (mz_max_volume s) ?f = d"
    using calc_db_fraction [OF assms(4), of d] assms(5) by simp
  ultimately show ?thesis using vol by (simp add: volume_level_def set_volume_level_def)
qed

text \<open>C15. A configuration with \<^verbatim>\<open>min_volume = max_volume\<close> passes the schema, but the
  refresh before adding raises \<^verbatim>\<open>ZeroDivisionError\<close> as soon as the receiver
  reports a volume, so \<^verbatim>\<open>setup_platform\<close> adds no entity.\<close>

theorem zero_volume_range_not_added:
  assumes "open_receiver port = Inr r"
    and "v (query MainPower) r = (Inr p, r1)"
    and "v (query MainMute) r1 = (Inr m, r2)"
    and "v (query MainVolume) r2 = (Inr (PyInt d), r3)"
  shows "\<exists>config. PLATFORM_SCHEMA [(CONF_SERIAL_PORT, CStr port), (CONF_MIN_VOLUME, CInt a),
             (CONF_MAX_VOLUME, CInt a)] = Inr config \<and>
           setup_platform open_receiver v config = Inr []"
proof -
  let ?c = "\<lparr>cfg_serial_port = port, cfg_name = DEFAULT_NAME, cfg_min_volume = a,
          cfg_max_volume = a, cfg_sources = [], cfg_soundmode = [], cfg_unique_id = ''''\<rparr>"
  have "fst (update v (marantz_init DEFAULT_NAME r a a [] [] '''')) = Inl ZeroDivisionError"
    using assms(2-4) by (simp add: update_def receiver_call_def calc_volume_def marantz_init_def)
  then have "setup_platform open_receiver v ?c = Inr []"
    using assms(1) by (simp add: setup_platform_def add_devices_single)
  then show ?thesis using schema_volume_range [of port a a] by blast
qed

text \<open>C32. With a receiver that stores each written code and answers queries with it,
  \<^verbatim>\<open>mute_volume(b)\<close> followed by a refresh gives \<^verbatim>\<open>is_volume_muted = b\<close>: the mute
  codes of the command and of the refresh agree.\<close>

theorem mute_then_refresh:
  "is_volume_muted (snd (update register_vendor (snd (mute_volume register_vendor b s)))) = Some b"
  by (simp add: mute_volume_def send_frame update_def receiver_call_def is_volume_muted_def
      split: prod.splits sum.splits)

theorem added_entity_safe_witness:
  "setup_platform (\<lambda>port. Inr []) (table_vendor demo_replies) demo_config =
     Inr [snd (update (table_vendor demo_replies) (demo_entity []))] \<and>
   reachable (table_vendor demo_replies) (snd (update (table_vendor demo_replies) (demo_entity [])))
     (snd (dispatch (table_vendor demo_replies) Update (snd (update (table_vendor demo_replies) (demo_entity []))))) \<and>
   (let s0 = snd (update (table_vendor demo_replies) (demo_entity []));
        s = snd (dispatch (table_vendor demo_replies) Update s0)
    in config_of s = config_of s0 \<and>
       (\<exists>m. sound_mode s = Inr m \<and> pred_option (\<lambda>n. n \<in> set (sound_mode_list s)) m) \<and>
       pred_option (\<lambda>n. n \<in> set (source_list s)) (source s))"
proof -
  let ?v = "table_vendor demo_replies"
  let ?s0 = "snd (update ?v (demo_entity ([] :: call list)))"
  have r: "reachable ?v ?s0 (snd (dispatch ?v Update ?s0))"
    by (rule reachable.step [OF reachable.start host_step.service]) (simp add: service_allowed_def)
  show ?thesis
    unfolding Let_def using demo_setup r added_entity_safe [OF demo_setup r] by blast
qed

theorem added_entity_volume_range_witness:
  "setup_platform (\<lambda>port. Inr []) (table_vendor demo_replies) demo_config =
     Inr [snd (update (table_vendor demo_replies) (demo_entity []))] \<and>
   cfg_min_volume demo_config < cfg_max_volume demo_config \<and>
   volume_replies_within (table_vendor demo_replies) (cfg_min_volume demo_config) (cfg_max_volume demo_config) \<and>
   pred_option (\<lambda>f. 0 \<le> f \<and> f \<le> 1)
     (volume_level (snd (dispatch (table_vendor demo_replies) (SetVolumeLevel (1/2)) (snd (update (table_vendor demo_replies) (demo_entity []))))))"
proof -
  let ?v = "table_vendor demo_replies"
  let ?s0 = "snd (update ?v (demo_entity ([] :: call list)))"
  have r: "reachable ?v ?s0 (snd (dispatch ?v (SetVolumeLevel (1/2)) ?s0))"
    by (rule reachable.step [OF reachable.start host_step.service])
      (simp add: service_allowed_def has_feature_def supported_features_def SUPPORT_MARANTZ_def)
  have lt: "cfg_min_volume demo_config < cfg_max_volume demo_config"
    by (simp add: demo_config_def DEFAULT_MIN_VOLUME_def DEFAULT_MAX_VOLUME_def)
  have w: "volume_replies_within ?v (cfg_min_volume demo_config) (cfg_max_volume demo_config)"
    by (simp add: volume_replies_within_def demo_config_def DEFAULT_MIN_VOLUME_def
        DEFAULT_MAX_VOLUME_def demo_replies_def int_reply_def)
  show ?thesis using demo_setup lt w added_entity_volume_range [OF demo_setup r lt w] by blast
qed

theorem refresh_then_set_volume_witness:
  "table_vendor demo_replies (query MainPower) (mz_receiver (demo_entity [])) =
     (Inr (PyStr ''1''), [query MainPower]) \<and>
   table_vendor demo_replies (query MainMute) [query MainPower] =
     (Inr (PyStr ''2''), [query MainPower, query MainMute]) \<and>
   table_vendor demo_replies (query MainVolume) [query MainPower, query MainMute] =
     (Inr (PyInt (-36)), [query MainPower, query MainMute, query MainVolume]) \<and>
   mz_min_volume (demo_entity ([] :: call list)) \<noteq> mz_max_volume (demo_entity ([] :: call list)) \<and>
   mz_min_volume (demo_entity ([] :: call list)) \<le> -36 \<and>
   (\<exists>f. volume_level (snd (update (table_vendor demo_replies) (demo_entity []))) = Some f \<and>
      set_volume_level (table_vendor demo_replies) f (snd (update (table_vendor demo_replies) (demo_entity []))) =
      send (table_vendor demo_replies) (write_code MainVolume ''0-36'') (snd (update (table_vendor demo_replies) (demo_entity []))))"
proof -
  have h: "table_vendor demo_replies (query MainPower) (mz_receiver (demo_entity [])) =
     (Inr (PyStr ''1''), [query MainPower])"
    "table_vendor demo_replies (query MainMute) [query MainPower] =
     (Inr (PyStr ''2''), [query MainPower, query MainMute])"
    "table_vendor demo_replies (query MainVolume) [query MainPower, query MainMute] =
     (Inr (PyInt (-36)), [query MainPower, query MainMute, query MainVolume])"
    "mz_min_volume (demo_entity ([] :: call list)) \<noteq> mz_max_volume (demo_entity ([] :: call list))"
    "mz_min_volume (demo_entity ([] :: call list)) \<le> -36"
    by (simp_all add: demo_defs)
  have s: "''0'' @ str_of_int (-36) = ''0-36''"
    by (simp add: str_of_int_def digits_of_nat.simps)
  show ?thesis using h refresh_then_set_volume [OF h, of "table_vendor demo_replies"] by (simp only: s) blast
qed

theorem zero_volume_range_not_added_witness:
  "(\<lambda>port. Inr []) ''/dev/ttyUSB0'' = Inr ([] :: call list) \<and>
   table_vendor demo_replies (query MainPower) [] = (Inr (PyStr ''1''), [query MainPower]) \<and>
   table_vendor demo_replies (query MainMute) [query MainPower] =
     (Inr (PyStr ''2''), [query MainPower, query MainMute]) \<and>
   table_vendor demo_replies (query MainVolume) [query MainPower, query MainMute] =
     (Inr (PyInt (-36)), [query MainPower, query MainMute, query MainVolume]) \<and>
   (\<exists>config. PLATFORM_SCHEMA [(CONF_SERIAL_PORT, CStr ''/dev/ttyUSB0''), (CONF_MIN_VOLUME, CInt (-40)),
       (CONF_MAX_VOLUME, CInt (-40))] = Inr config \<and>
     setup_platform (\<lambda>port. Inr []) (table_vendor demo_replies) config = Inr [])"
proof -
  have h: "(\<lambda>port. Inr []) ''/dev/ttyUSB0'' = Inr ([] :: call list)"
    "table_vendor demo_replies (query MainPower) [] = (Inr (PyStr ''1''), [query MainPower])"
    "table_vendor demo_replies (query MainMute) [query MainPower] =
     (Inr (PyStr ''2''), [query MainPower, query MainMute])"
    "table_vendor demo_replies (query MainVolume) [query MainPower, query MainMute] =
     (Inr (PyInt (-36)), [query MainPower, query MainMute, query MainVolume])"
    by (simp_all add: demo_defs)
  show ?thesis using h zero_volume_range_not_added [OF h, where a = "-40"] by blast
qed

end
